theory Spec2Isabelle
  imports Complex_Main "HOL-Library.Word" "HOL-Library.Multiset"
begin

section \<open>Python values\<close>

text \<open>
  A Python \<open>str\<close> is a sequence of Unicode code points, so a text is a list of code
  points (natural numbers), not a list of bytes; \<open>bytes\<close> are lists of 8-bit words.
  The arithmetic of the quality score is float arithmetic with rounding (see below); the
  other float values of the result dictionaries (durations, probabilities reported by
  the model, the average confidence) are kept as real numbers, and no property below
  depends on how they are rounded.
\<close>

type_synonym codepoint = nat
type_synonym pystr = "codepoint list"
type_synonym pybytes = "8 word list"

definition cp :: "string \<Rightarrow> pystr" where
  "cp s = map of_char s"

text \<open>
  \<open>str.isspace\<close> on one character, which is also the separator set of \<open>str.split()\<close>
  and \<open>str.strip()\<close> without arguments: U+0009..U+000D, U+001C..U+0020, U+0085, U+00A0,
  U+1680, U+2000..U+200A, U+2028, U+2029, U+202F, U+205F, U+3000.
\<close>

definition isspace :: "codepoint \<Rightarrow> bool" where
  "isspace c \<longleftrightarrow>
     (9 \<le> c \<and> c \<le> 13) \<or> (28 \<le> c \<and> c \<le> 32) \<or> c = 133 \<or> c = 160 \<or> c = 5760 \<or>
     (8192 \<le> c \<and> c \<le> 8202) \<or> c = 8232 \<or> c = 8233 \<or> c = 8239 \<or> c = 8287 \<or> c = 12288"

text \<open>\<open>text.split()\<close>: skip whitespace, take the run of non-whitespace, repeat.\<close>

function py_split :: "pystr \<Rightarrow> pystr list" where
  "py_split s =
     (let s' = dropWhile isspace s
      in if s' = [] then []
         else takeWhile (\<lambda>c. \<not> isspace c) s' # py_split (dropWhile (\<lambda>c. \<not> isspace c) s'))"
  by pat_completeness auto
termination
proof (relation "measure length")
  show "wf (measure length)" by simp
next
  fix s s' :: pystr
  assume s': "s' = dropWhile isspace s" and ne: "s' \<noteq> []"
  from ne obtain x xs where xs: "s' = x # xs" by (auto simp: neq_Nil_conv)
  from ne have "\<not> isspace (hd s')" unfolding s' by (rule hd_dropWhile)
  with xs have "\<not> isspace x" by simp
  then have "dropWhile (\<lambda>c. \<not> isspace c) s' = dropWhile (\<lambda>c. \<not> isspace c) xs"
    using xs by simp
  moreover have "length (dropWhile (\<lambda>c. \<not> isspace c) xs) \<le> length xs"
    by (rule length_dropWhile_le)
  moreover have "length s' \<le> length s" using s' by (simp add: length_dropWhile_le)
  ultimately show "(dropWhile (\<lambda>c. \<not> isspace c) s', s) \<in> measure length"
    using xs by simp
qed

declare py_split.simps [simp del]

text \<open>\<open>sep.join(words)\<close>.\<close>

fun py_join :: "pystr \<Rightarrow> pystr list \<Rightarrow> pystr" where
  "py_join sep [] = []"
| "py_join sep [w] = w"
| "py_join sep (w # v # ws) = w @ sep @ py_join sep (v # ws)"

text \<open>\<open>text.strip()\<close>.\<close>

definition py_strip :: "pystr \<Rightarrow> pystr" where
  "py_strip s = rev (dropWhile isspace (rev (dropWhile isspace s)))"

text \<open>\<open>s.startswith(p)\<close> and the substring test \<open>sub in s\<close>.\<close>

fun py_startswith :: "pystr \<Rightarrow> pystr \<Rightarrow> bool" where
  "py_startswith s [] = True"
| "py_startswith [] (p # ps) = False"
| "py_startswith (c # cs) (p # ps) = (c = p \<and> py_startswith cs ps)"

fun py_in :: "pystr \<Rightarrow> pystr \<Rightarrow> bool" where
  "py_in sub [] = (sub = [])"
| "py_in sub (c # cs) = (py_startswith (c # cs) sub \<or> py_in sub cs)"

text \<open>
  The case tables of Unicode are a parameter: \<open>c.isupper()\<close> and \<open>c.islower()\<close> of one
  character, \<open>c.upper()\<close> of one character (which may be several characters long) and
  \<open>s.lower()\<close> of a whole string (whose result depends on context for Greek sigma).
\<close>

record casing =
  ch_isupper :: "codepoint \<Rightarrow> bool"
  ch_islower :: "codepoint \<Rightarrow> bool"
  ch_upper :: "codepoint \<Rightarrow> pystr"
  str_lower :: "pystr \<Rightarrow> pystr"

text \<open>The tables restricted to ASCII letters; every other code point is left uncased.\<close>

definition ascii_casing :: casing where
  "ascii_casing =
     \<lparr> ch_isupper = (\<lambda>c. 65 \<le> c \<and> c \<le> 90),
       ch_islower = (\<lambda>c. 97 \<le> c \<and> c \<le> 122),
       ch_upper = (\<lambda>c. [if 97 \<le> c \<and> c \<le> 122 then c - 32 else c]),
       str_lower = map (\<lambda>c. if 65 \<le> c \<and> c \<le> 90 then c + 32 else c) \<rparr>"

section \<open>Exceptions, result dictionaries and the file system\<close>

text \<open>
  Every \<open>raise\<close> of the source and every failure of an external call is a value: an
  exception with its class and its message (\<open>str(e)\<close>). \<open>OtherException\<close> stands for any
  other subclass of \<open>Exception\<close> (an \<open>OSError\<close> of the file system, an error of the audio
  decoder or of the model).
\<close>

datatype exn_kind =
  ValueError | RuntimeError | ZeroDivisionError | AttributeError | OverflowError
  | TimeoutExpired | FileNotFoundError | ImportError | OtherException

datatype exn = Exn (kind: exn_kind) (message: pystr)

text \<open>The values that occur in the result dictionaries; a dictionary keeps its keys in order.\<close>

datatype pyval =
  PInt int | PFloat real | PStr pystr | PBytes pybytes
  | PList "pyval list" | PDict "(string \<times> pyval) list"

type_synonym pydict = "(string \<times> pyval) list"
type_synonym path = pystr

section \<open>Float arithmetic\<close>

text \<open>
  A finite Python float is a real number that an IEEE 754 double represents. Every
  arithmetic operation computes the exact result and rounds it to the nearest double,
  ties to the even significand: \<open>ulp_exponent x\<close> is the exponent of the unit in the last
  place of the doubles around \<open>x\<close> (52 below the exponent of \<open>x\<close>, and never below that of
  the subnormal numbers), and \<open>float_round x\<close> is the nearest multiple of that unit. A
  literal such as \<open>0.7\<close> denotes \<open>float_round 0.7\<close>. Converting an \<open>int\<close> rounds in the
  same way and raises \<open>OverflowError\<close> when the result is beyond the largest double.
  Infinities and NaN are not modelled: the operations below are applied to finite values
  whose results stay far below the largest double.
\<close>

definition round_half_even :: "real \<Rightarrow> int" where
  "round_half_even y =
     (let f = \<lfloor>y\<rfloor>; r = y - of_int f
      in if r < 1 / 2 then f else if r > 1 / 2 then f + 1 else if even f then f else f + 1)"

definition ulp_exponent :: "real \<Rightarrow> int" where
  "ulp_exponent x = max (\<lfloor>log 2 \<bar>x\<bar>\<rfloor> - 52) (- 1074)"

definition float_round :: "real \<Rightarrow> real" where
  "float_round x =
     (if x = 0 then 0
      else of_int (round_half_even (x / 2 powr of_int (ulp_exponent x)))
           * 2 powr of_int (ulp_exponent x))"

definition float_mul :: "real \<Rightarrow> real \<Rightarrow> real" where
  "float_mul a b = float_round (a * b)"

definition float_add :: "real \<Rightarrow> real \<Rightarrow> real" where
  "float_add a b = float_round (a + b)"

definition float_of_int :: "int \<Rightarrow> exn + real" where
  "float_of_int n =
     (if \<bar>float_round (of_int n)\<bar> \<ge> 2 ^ 1024
      then Inl (Exn OverflowError (cp ''int too large to convert to float''))
      else Inr (float_round (of_int n)))"

text \<open>
  The same tables with one more character: U+0138 (Latin small letter kra), a lowercase
  letter that has no uppercase form, so that \<open>upper()\<close> leaves it unchanged.
\<close>

definition kra_casing :: casing where
  "kra_casing =
     ascii_casing\<lparr> ch_islower := (\<lambda>c. c = 312 \<or> ch_islower ascii_casing c) \<rparr>"

section \<open>whisperx\_processor.py: pure helpers\<close>

text \<open>\<open>WhisperXProcessor._clean_transcription\<close>.\<close>

definition clean_transcription :: "casing \<Rightarrow> pystr \<Rightarrow> pystr" where
  "clean_transcription C text =
     (if text = [] then []
      else
        let text = py_join (cp '' '') (py_split text);
            text = py_strip text;
            text = (if text \<noteq> [] \<and> \<not> ch_isupper C (hd text)
                    then ch_upper C (hd text) @ tl text else text);
            text = (if text \<noteq> [] \<and> last text \<notin> set (cp ''.!?'')
                    then text @ cp ''.'' else text)
        in text)"

text \<open>
  \<open>WhisperXProcessor._assess_transcription_quality\<close>, in float arithmetic.
  \<open>expected_words * 0.3\<close> converts the integer to a float first; the comparison of the
  integer word count with that float is exact.
\<close>

definition swedish_indicators :: "pystr list" where
  "swedish_indicators =
     [[228, 114], cp ''och'', cp ''att'', cp ''jag'', cp ''det'', cp ''som'', cp ''en'',
      [112, 229], cp ''med'', [102, 246, 114]]"

definition assess_transcription_quality ::
  "casing \<Rightarrow> pystr \<Rightarrow> real \<Rightarrow> int \<Rightarrow> exn + real" where
  "assess_transcription_quality C text confidence audio_size =
     (if text = [] then Inr 0.0
      else
        let quality_score = confidence;
            word_count = int (length (py_split text));
            expected_words = max 1 (audio_size div 10000)
        in case float_of_int expected_words of
             Inl e \<Rightarrow> Inl e
           | Inr expected \<Rightarrow>
               let quality_score =
                     (if of_int word_count < float_mul expected (float_round 0.3)
                      then float_mul quality_score (float_round 0.7) else quality_score);
                   quality_score =
                     (if 5 \<le> word_count \<and> word_count \<le> 100
                      then float_mul quality_score (float_round 1.1) else quality_score);
                   swedish_count =
                     length (filter (\<lambda>word. py_in word (str_lower C text)) swedish_indicators);
                   quality_score =
                     (if swedish_count > 0
                      then float_mul quality_score
                             (float_add 1.0
                                (float_mul (float_round (real swedish_count)) (float_round 0.02)))
                      else quality_score)
               in Inr (min 1.0 quality_score))"

section \<open>whisperx\_processor.py: the processor\<close>

text \<open>
  The attributes that \<open>WhisperXProcessor.__init__\<close> assigns. The model object itself is
  external; its behaviour is part of the environment below.
\<close>

record processor =
  model_size :: pystr
  default_language :: pystr
  supported_languages :: "(pystr \<times> pystr) list"
  device :: pystr
  target_sample_rate :: nat
  min_duration :: real
  max_duration :: real

definition WhisperXProcessor_init :: "bool \<Rightarrow> pystr \<Rightarrow> pystr \<Rightarrow> pystr \<Rightarrow> processor" where
  "WhisperXProcessor_init cuda_is_available model_size_arg language_arg device_arg =
     \<lparr> model_size = model_size_arg,
       default_language = language_arg,
       supported_languages =
         [(cp ''sv'', cp ''Swedish''), (cp ''en'', cp ''English''), (cp ''da'', cp ''Danish''),
          (cp ''no'', cp ''Norwegian''), (cp ''fi'', cp ''Finnish''), (cp ''de'', cp ''German''),
          (cp ''fr'', cp ''French''), (cp ''es'', cp ''Spanish''), (cp ''it'', cp ''Italian''),
          (cp ''nl'', cp ''Dutch'')],
       device =
         (if device_arg = cp ''auto''
          then (if cuda_is_available then cp ''cuda'' else cp ''cpu'') else device_arg),
       target_sample_rate = 16000,
       min_duration = 0.5,
       max_duration = 120 \<rparr>"

text \<open>
  The expression \<open>self.language\<close>. \<open>__init__\<close> assigns \<open>self.default_language\<close> and no
  attribute \<open>language\<close>, and the class defines none, so reading it raises
  \<open>AttributeError\<close>.
\<close>

definition self_language :: "processor \<Rightarrow> exn + pystr" where
  "self_language P =
     Inl (Exn AttributeError (cp ''WhisperXProcessor object has no attribute language''))"

text \<open>The keyword arguments of one call of \<open>self.model.transcribe\<close>.\<close>

record transcribe_args =
  audio :: "real list"
  language_arg :: "pystr option"
  beam_size :: nat
  best_of :: nat
  temperature :: real
  condition_on_previous_text :: bool
  vad_filter :: bool
  vad_parameters :: "(string \<times> int) list"

text \<open>What the model returns: segments and an info object; \<open>None\<close> is an absent attribute.\<close>

record segment =
  seg_text :: pystr
  avg_logprob :: "real option"

record transcription_info =
  language :: "pystr option"
  language_probability :: "real option"

text \<open>
  The outcomes of the external calls made during one operation: the two clock readings,
  \<open>tempfile.NamedTemporaryFile(suffix, delete=False)\<close>, writing the buffer to it,
  \<open>librosa.load\<close> at 16 kHz mono, \<open>from scipy import signal\<close>, the Butterworth
  high-pass filter, and the model (an exception while its segments are iterated counts as
  an exception of the call: both are inside the same \<open>try\<close>).
\<close>

record stt_env =
  clock_start :: real
  clock_end :: real
  tmp_create :: "pystr \<Rightarrow> exn + path"
  tmp_write :: "exn option"
  librosa_load :: "path \<Rightarrow> exn + real list"
  scipy_import :: "exn option"
  butter_sosfilt :: "real list \<Rightarrow> exn + real list"
  model_transcribe :: "transcribe_args \<Rightarrow> exn + (segment list \<times> transcription_info)"

text \<open>The state an operation changes: the files that exist, and the calls made to the model.\<close>

record world =
  files :: "path set"
  model_calls :: "transcribe_args list"

definition create_file :: "path \<Rightarrow> world \<Rightarrow> world" where
  "create_file p W = W\<lparr>files := insert p (files W)\<rparr>"

text \<open>The \<open>finally\<close> blocks: \<open>if os.path.exists(p): os.unlink(p)\<close>.\<close>

definition unlink_if_exists :: "path \<Rightarrow> world \<Rightarrow> world" where
  "unlink_if_exists p W = (if p \<in> files W then W\<lparr>files := files W - {p}\<rparr> else W)"

section \<open>whisperx\_processor.py: audio preprocessing\<close>

text \<open>\<open>int(x)\<close> of a float truncates towards zero; \<open>xs[:k]\<close> counts a negative \<open>k\<close> from the end.\<close>

definition py_int :: "real \<Rightarrow> int" where
  "py_int x = (if 0 \<le> x then \<lfloor>x\<rfloor> else \<lceil>x\<rceil>)"

definition py_slice_to :: "int \<Rightarrow> 'a list \<Rightarrow> 'a list" where
  "py_slice_to k xs = (if 0 \<le> k then take (nat k) xs else take (length xs - nat (- k)) xs)"

text \<open>
  \<open>WhisperXProcessor._normalize_audio\<close>. \<open>np.mean\<close> of an empty array is only a warning,
  but \<open>np.max\<close> of an empty array raises \<open>ValueError\<close>. The import of scipy is outside the
  \<open>try\<close>; a failure of the filter is swallowed by the bare \<open>except\<close>.
\<close>

definition normalize_audio :: "stt_env \<Rightarrow> real list \<Rightarrow> exn + real list" where
  "normalize_audio E audio_array =
     (let mean = sum_list audio_array / real (length audio_array);
          audio_array = map (\<lambda>x. x - mean) audio_array
      in if audio_array = []
         then Inl (Exn ValueError
                (cp ''zero-size array to reduction operation maximum which has no identity''))
         else
           let max_val = Max (set (map abs audio_array));
               audio_array = (if max_val > 0 then map (\<lambda>x. x / max_val) audio_array
                              else audio_array)
           in case scipy_import E of
                Some e \<Rightarrow> Inl e
              | None \<Rightarrow>
                  (case butter_sosfilt E audio_array of
                     Inl e \<Rightarrow> Inr audio_array
                   | Inr filtered \<Rightarrow> Inr filtered))"

text \<open>
  \<open>WhisperXProcessor._preprocess_audio\<close>; \<open>librosa.load\<close> resamples to the requested
  rate, so \<open>sample_rate\<close> is \<open>self.target_sample_rate\<close>. The \<open>except\<close> clause logs and
  re-raises.
\<close>

definition preprocess_audio ::
  "processor \<Rightarrow> stt_env \<Rightarrow> path \<Rightarrow> real option \<Rightarrow> exn + real list" where
  "preprocess_audio P E audio_path max_duration_arg =
     (case librosa_load E audio_path of
        Inl e \<Rightarrow> Inl e
      | Inr audio_array \<Rightarrow>
          let sample_rate = target_sample_rate P in
          if sample_rate = 0 then Inl (Exn ZeroDivisionError (cp ''division by zero''))
          else
            let duration = real (length audio_array) / real sample_rate;
                max_dur = (case max_duration_arg of
                             None \<Rightarrow> max_duration P
                           | Some d \<Rightarrow> if d = 0 then max_duration P else d);
                audio_array =
                  (if duration < min_duration P then audio_array
                   else if duration > max_dur
                   then py_slice_to (py_int (max_dur * real sample_rate)) audio_array
                   else audio_array)
            in normalize_audio E audio_array)"

section \<open>whisperx\_processor.py: language detection\<close>

text \<open>
  The filter of the supported languages: \<open>if supported_languages:\<close> is false for \<open>None\<close>
  and for the empty list.
\<close>

definition detection_languages_of :: "processor \<Rightarrow> pystr list option \<Rightarrow> pystr list" where
  "detection_languages_of P supported_languages_arg =
     (case supported_languages_arg of
        None \<Rightarrow> map fst (supported_languages P)
      | Some langs \<Rightarrow>
          if langs = [] then map fst (supported_languages P)
          else filter (\<lambda>lang. lang \<in> set (map fst (supported_languages P))) langs)"

text \<open>
  The loop that builds \<open>all_languages\<close>; \<open>n\<close> is \<open>len(detection_languages)\<close>. The float
  division raises \<open>ZeroDivisionError\<close> when \<open>n - 1\<close> is zero.
\<close>

fun all_languages_loop ::
  "pystr \<Rightarrow> real \<Rightarrow> nat \<Rightarrow> pystr list \<Rightarrow> (pystr \<times> real) list \<Rightarrow> exn + (pystr \<times> real) list" where
  "all_languages_loop detected p n [] acc = Inr acc"
| "all_languages_loop detected p n (lang # rest) acc =
     (if lang = detected then all_languages_loop detected p n rest (acc @ [(lang, p)])
      else if int n - 1 = 0 then Inl (Exn ZeroDivisionError (cp ''float division by zero''))
      else all_languages_loop detected p n rest
             (acc @ [(lang, max 0.1 ((1.0 - p) / real_of_int (int n - 1)))]))"

text \<open>\<open>list.sort(key=confidence, reverse=True)\<close>: stable, largest confidence first.\<close>

definition sort_by_confidence :: "(pystr \<times> real) list \<Rightarrow> (pystr \<times> real) list" where
  "sort_by_confidence entries = sort_key (\<lambda>e. - snd e) entries"

definition language_entry :: "pystr \<times> real \<Rightarrow> pyval" where
  "language_entry e = PDict [(''language'', PStr (fst e)), (''confidence'', PFloat (snd e))]"

text \<open>The dictionary returned by the \<open>except Exception\<close> handler of \<open>detect_language\<close>;
  the second argument is \<open>detection_languages\<close> when that local is already bound.\<close>

definition detect_language_fallback ::
  "processor \<Rightarrow> stt_env \<Rightarrow> pystr list option \<Rightarrow> exn \<Rightarrow> pydict" where
  "detect_language_fallback P E bound_detection_languages e =
     [(''detected_language'', PStr (default_language P)),
      (''language_confidence'', PFloat 0.5),
      (''all_languages'', PList [language_entry (default_language P, 0.5)]),
      (''supported_languages'',
         PList (map PStr (case bound_detection_languages of
                            Some langs \<Rightarrow> langs
                          | None \<Rightarrow> map fst (supported_languages P)))),
      (''detection_duration'', PFloat (clock_end E - clock_start E)),
      (''error'', PStr (message e))]"

definition detect_transcribe_args :: "real list \<Rightarrow> transcribe_args" where
  "detect_transcribe_args audio_array =
     \<lparr> audio = audio_array, language_arg = None, beam_size = 1, best_of = 1,
       temperature = 0.0, condition_on_previous_text = False, vad_filter = True,
       vad_parameters = [(''min_silence_duration_ms'', 500), (''min_speech_duration_ms'', 250)] \<rparr>"

text \<open>The inner \<open>try\<close> block of \<open>detect_language\<close>, from preprocessing to the result.\<close>

definition detect_language_body ::
  "processor \<Rightarrow> stt_env \<Rightarrow> world \<Rightarrow> path \<Rightarrow> pystr list \<Rightarrow> (exn + pydict) \<times> world" where
  "detect_language_body P E W temp_path detection_languages =
     (case preprocess_audio P E temp_path (Some 10.0) of
        Inl e \<Rightarrow> (Inl e, W)
      | Inr audio_array \<Rightarrow>
          let args = detect_transcribe_args audio_array;
              W = W\<lparr>model_calls := model_calls W @ [args]\<rparr>
          in case model_transcribe E args of
               Inl e \<Rightarrow> (Inl e, W)
             | Inr (segments, info) \<Rightarrow>
                 let detected_language =
                       (case language info of Some l \<Rightarrow> l | None \<Rightarrow> default_language P);
                     language_probability =
                       (case language_probability info of Some p \<Rightarrow> p | None \<Rightarrow> 0.5);
                     unsupported = (detected_language \<notin> set detection_languages);
                     detected_language =
                       (if unsupported then default_language P else detected_language);
                     language_probability =
                       (if unsupported then 0.5 else language_probability)
                 in case all_languages_loop detected_language language_probability
                           (length detection_languages) detection_languages [] of
                      Inl e \<Rightarrow> (Inl e, W)
                    | Inr all_languages \<Rightarrow>
                        (Inr [(''detected_language'', PStr detected_language),
                              (''language_confidence'', PFloat language_probability),
                              (''all_languages'',
                                 PList (map language_entry (sort_by_confidence all_languages))),
                              (''supported_languages'', PList (map PStr detection_languages)),
                              (''detection_duration'', PFloat (clock_end E - clock_start E)),
                              (''audio_duration'',
                                 PFloat (real (length audio_array) / real (target_sample_rate P)))],
                         W))"

text \<open>
  \<open>WhisperXProcessor.detect_language\<close>. The temporary file is created and written before
  the inner \<open>try\<close> is entered; the \<open>finally\<close> of that \<open>try\<close> removes it.
\<close>

definition detect_language ::
  "processor \<Rightarrow> stt_env \<Rightarrow> world \<Rightarrow> pybytes \<Rightarrow> pystr \<Rightarrow> pystr list option
     \<Rightarrow> (exn + pydict) \<times> world" where
  "detect_language P E W audio_buffer audio_format supported_languages_arg =
     (if audio_buffer = [] \<or> length audio_buffer < 1024
      then (Inr (detect_language_fallback P E None
                   (Exn ValueError (cp ''Audio buffer is empty or too small''))), W)
      else
        let detection_languages = detection_languages_of P supported_languages_arg
        in case tmp_create E (cp ''.'' @ audio_format) of
             Inl e \<Rightarrow> (Inr (detect_language_fallback P E (Some detection_languages) e), W)
           | Inr temp_path \<Rightarrow>
               let W = create_file temp_path W
               in case tmp_write E of
                    Some e \<Rightarrow> (Inr (detect_language_fallback P E (Some detection_languages) e), W)
                  | None \<Rightarrow>
                      (case detect_language_body P E W temp_path detection_languages of
                         (r, W) \<Rightarrow>
                           let W = unlink_if_exists temp_path W
                           in case r of
                                Inl e \<Rightarrow>
                                  (Inr (detect_language_fallback P E (Some detection_languages) e), W)
                              | Inr result \<Rightarrow> (Inr result, W)))"

section \<open>whisperx\_processor.py: transcription\<close>

text \<open>The loop over the segments: the text, the summed confidence and the segment count.\<close>

fun segments_loop :: "segment list \<Rightarrow> pystr \<times> real \<times> nat \<Rightarrow> pystr \<times> real \<times> nat" where
  "segments_loop [] acc = acc"
| "segments_loop (s # rest) (transcription_text, total_confidence, segment_count) =
     segments_loop rest
       (case avg_logprob s of
          None \<Rightarrow> (transcription_text @ seg_text s, total_confidence, segment_count)
        | Some lp \<Rightarrow>
            (transcription_text @ seg_text s,
             total_confidence + min 1.0 (max 0.0 (exp lp)),
             segment_count + 1))"

definition transcribe_args_for :: "real list \<Rightarrow> pystr \<Rightarrow> transcribe_args" where
  "transcribe_args_for audio_array language_to_use =
     \<lparr> audio = audio_array, language_arg = Some language_to_use, beam_size = 5, best_of = 5,
       temperature = 0.0, condition_on_previous_text = False, vad_filter = True,
       vad_parameters = [(''min_silence_duration_ms'', 500), (''min_speech_duration_ms'', 250)] \<rparr>"

text \<open>
  The \<open>except Exception\<close> handler of \<open>transcribe_buffer\<close>. The dictionary display is
  evaluated in order, and its second value is \<open>self.language\<close>.
\<close>

definition transcribe_failure :: "processor \<Rightarrow> stt_env \<Rightarrow> exn \<Rightarrow> exn + pydict" where
  "transcribe_failure P E e =
     (case self_language P of
        Inl raised \<Rightarrow> Inl raised
      | Inr lang \<Rightarrow>
          Inr [(''text'', PStr []),
               (''language'', PStr lang),
               (''confidence'', PFloat 0.0),
               (''quality_score'', PFloat 0.0),
               (''duration'', PFloat (clock_end E - clock_start E)),
               (''error'', PStr (message e)),
               (''model_used'', PStr (model_size P))])"

text \<open>The inner \<open>try\<close> block of \<open>transcribe_buffer\<close>.\<close>

definition transcribe_body ::
  "casing \<Rightarrow> processor \<Rightarrow> stt_env \<Rightarrow> world \<Rightarrow> path \<Rightarrow> pybytes \<Rightarrow> pystr
     \<Rightarrow> (exn + pydict) \<times> world" where
  "transcribe_body C P E W temp_path audio_buffer language_to_use =
     (case preprocess_audio P E temp_path None of
        Inl e \<Rightarrow> (Inl e, W)
      | Inr audio_array \<Rightarrow>
          let args = transcribe_args_for audio_array language_to_use;
              W = W\<lparr>model_calls := model_calls W @ [args]\<rparr>
          in case model_transcribe E args of
               Inl e \<Rightarrow> (Inl e, W)
             | Inr (segments, info) \<Rightarrow>
                 (case segments_loop segments ([], 0, 0) of
                    (transcription_text, total_confidence, segment_count) \<Rightarrow>
                      let avg_confidence =
                            (if segment_count > 0 then total_confidence / real segment_count
                             else 0.0);
                          transcription_text = clean_transcription C transcription_text
                      in case (case assess_transcription_quality C transcription_text
                                      avg_confidence (int (length audio_buffer)) of
                                 Inl e \<Rightarrow> Inl e
                               | Inr quality_score \<Rightarrow>
                                   (case language info of
                                      Some l \<Rightarrow> Inr (quality_score, l)
                                    | None \<Rightarrow>
                                        (case self_language P of
                                           Inl e \<Rightarrow> Inl e
                                         | Inr l \<Rightarrow> Inr (quality_score, l)))) of
                           Inl e \<Rightarrow> (Inl e, W)
                         | Inr (quality_score, lang) \<Rightarrow>
                             (Inr [(''text'', PStr transcription_text),
                                   (''language'', PStr lang),
                                   (''confidence'', PFloat avg_confidence),
                                   (''quality_score'', PFloat quality_score),
                                   (''duration'', PFloat (clock_end E - clock_start E)),
                                   (''audio_duration'',
                                      PFloat (real (length audio_array)
                                              / real (target_sample_rate P))),
                                   (''detected_language_probability'',
                                      PFloat (case language_probability info of
                                                Some p \<Rightarrow> p | None \<Rightarrow> 1.0)),
                                   (''model_used'', PStr (model_size P)),
                                   (''segments_count'', PInt (int segment_count))],
                              W)))"

text \<open>\<open>WhisperXProcessor.transcribe_buffer\<close>; \<open>target_language or self.default_language\<close>
  takes the default for \<open>None\<close> and for the empty string.\<close>

definition transcribe_buffer ::
  "casing \<Rightarrow> processor \<Rightarrow> stt_env \<Rightarrow> world \<Rightarrow> pybytes \<Rightarrow> pystr \<Rightarrow> pystr option
     \<Rightarrow> (exn + pydict) \<times> world" where
  "transcribe_buffer C P E W audio_buffer audio_format target_language =
     (let language_to_use =
            (case target_language of
               None \<Rightarrow> default_language P
             | Some l \<Rightarrow> if l = [] then default_language P else l)
      in if audio_buffer = [] \<or> length audio_buffer < 1024
         then (transcribe_failure P E
                 (Exn ValueError (cp ''Audio buffer is empty or too small'')), W)
         else
           case tmp_create E (cp ''.'' @ audio_format) of
             Inl e \<Rightarrow> (transcribe_failure P E e, W)
           | Inr temp_path \<Rightarrow>
               let W = create_file temp_path W
               in case tmp_write E of
                    Some e \<Rightarrow> (transcribe_failure P E e, W)
                  | None \<Rightarrow>
                      (case transcribe_body C P E W temp_path audio_buffer language_to_use of
                         (r, W) \<Rightarrow>
                           let W = unlink_if_exists temp_path W
                           in case r of
                                Inl e \<Rightarrow> (transcribe_failure P E e, W)
                              | Inr result \<Rightarrow> (Inr result, W)))"

section \<open>tts\_processor.py: the processor and its providers\<close>

text \<open>The attributes that \<open>TTSProcessor.__init__\<close> and the \<open>_initialize_*\<close> methods assign.\<close>

record tts_processor =
  provider :: pystr
  voice :: pystr
  tts_device :: pystr
  sample_rate :: nat
  channels :: nat
  bit_depth :: nat
  piper_available :: bool
  espeak_available :: bool
  system_available :: bool

text \<open>\<open>subprocess.run\<close> either completes with a return code and a standard error text, or
  raises (\<open>TimeoutExpired\<close>, \<open>FileNotFoundError\<close>, or another \<open>OSError\<close>).\<close>

datatype proc_result = Completed (returncode: int) (stderr: pystr) | Raised exn

text \<open>
  The outcomes of the external calls of the TTS module: the clock, the three availability
  probes, the temporary file, the three synthesis commands (text and output path), the
  ffmpeg conversion (input and output path, and whether it left an output file behind),
  and reading a file.
\<close>

record tts_env =
  tts_clock_start :: real
  tts_clock_end :: real
  piper_help :: proc_result
  espeak_version :: proc_result
  say_version :: proc_result
  tts_tmp_create :: "pystr \<Rightarrow> exn + path"
  piper_run :: "pystr \<Rightarrow> path \<Rightarrow> proc_result"
  espeak_run :: "pystr \<Rightarrow> path \<Rightarrow> proc_result"
  say_run :: "pystr \<Rightarrow> path \<Rightarrow> proc_result"
  ffmpeg_run :: "path \<Rightarrow> path \<Rightarrow> proc_result"
  ffmpeg_creates_output :: bool
  read_bytes :: "path \<Rightarrow> exn + pybytes"

text \<open>The clause \<open>except (subprocess.TimeoutExpired, FileNotFoundError, RuntimeError)\<close>.\<close>

definition probe_caught :: "exn \<Rightarrow> bool" where
  "probe_caught e \<longleftrightarrow> kind e = TimeoutExpired \<or> kind e = FileNotFoundError \<or> kind e = RuntimeError"

text \<open>\<open>TTSProcessor._initialize_system\<close>.\<close>

definition initialize_system :: "tts_env \<Rightarrow> tts_processor \<Rightarrow> exn + tts_processor" where
  "initialize_system E T =
     (case (case say_version E of
              Raised e \<Rightarrow> Inl e
            | Completed rc err \<Rightarrow>
                if rc = 0 then Inr (T\<lparr>system_available := True\<rparr>)
                else Inl (Exn RuntimeError (cp ''System TTS not available''))) of
        Inr T' \<Rightarrow> Inr T'
      | Inl e \<Rightarrow>
          if probe_caught e then Inl (Exn RuntimeError (cp ''No TTS providers available''))
          else Inl e)"

text \<open>\<open>TTSProcessor._initialize_espeak\<close>.\<close>

definition initialize_espeak :: "tts_env \<Rightarrow> tts_processor \<Rightarrow> exn + tts_processor" where
  "initialize_espeak E T =
     (case (case espeak_version E of
              Raised e \<Rightarrow> Inl e
            | Completed rc err \<Rightarrow>
                if rc = 0 then Inr (T\<lparr>espeak_available := True\<rparr>)
                else Inl (Exn RuntimeError (cp ''eSpeak TTS not working properly''))) of
        Inr T' \<Rightarrow> Inr T'
      | Inl e \<Rightarrow>
          if probe_caught e then initialize_system E (T\<lparr>provider := cp ''system''\<rparr>)
          else Inl e)"

text \<open>\<open>TTSProcessor._initialize_piper\<close>.\<close>

definition initialize_piper :: "tts_env \<Rightarrow> tts_processor \<Rightarrow> exn + tts_processor" where
  "initialize_piper E T =
     (case (case piper_help E of
              Raised e \<Rightarrow> Inl e
            | Completed rc err \<Rightarrow>
                if rc = 0 then Inr (T\<lparr>piper_available := True\<rparr>)
                else Inl (Exn RuntimeError (cp ''Piper TTS not working properly''))) of
        Inr T' \<Rightarrow> Inr T'
      | Inl e \<Rightarrow>
          if probe_caught e then initialize_espeak E (T\<lparr>provider := cp ''espeak''\<rparr>)
          else Inl e)"

text \<open>\<open>TTSProcessor._initialize_provider\<close>.\<close>

definition initialize_provider :: "tts_env \<Rightarrow> tts_processor \<Rightarrow> exn + tts_processor" where
  "initialize_provider E T =
     (if provider T = cp ''piper'' then initialize_piper E T
      else if provider T = cp ''espeak'' then initialize_espeak E T
      else if provider T = cp ''system'' then initialize_system E T
      else Inl (Exn ValueError (cp ''Unsupported TTS provider: '' @ provider T)))"

text \<open>\<open>TTSProcessor.__init__\<close>: construction either raises or yields the processor.\<close>

definition TTSProcessor_init ::
  "tts_env \<Rightarrow> pystr \<Rightarrow> pystr \<Rightarrow> pystr \<Rightarrow> exn + tts_processor" where
  "TTSProcessor_init E provider_arg voice_arg device_arg =
     initialize_provider E
       \<lparr> provider = provider_arg, voice = voice_arg, tts_device = device_arg,
         sample_rate = 22050, channels = 1, bit_depth = 16,
         piper_available = False, espeak_available = False, system_available = False \<rparr>"

section \<open>tts\_processor.py: synthesis\<close>

text \<open>\<open>s.replace(old, new)\<close>: left to right, without overlaps; an empty \<open>old\<close> matches
  between all characters.\<close>

function py_replace :: "pystr \<Rightarrow> pystr \<Rightarrow> pystr \<Rightarrow> pystr" where
  "py_replace old new s =
     (if old = [] then new @ concat (map (\<lambda>c. c # new) s)
      else if s = [] then []
      else if py_startswith s old then new @ py_replace old new (drop (length old) s)
      else hd s # py_replace old new (tl s))"
  by pat_completeness auto
termination
  by (relation "measure (\<lambda>(old, new, s). length s)") auto

declare py_replace.simps [simp del]

definition py_endswith :: "pystr \<Rightarrow> pystr \<Rightarrow> bool" where
  "py_endswith s suffix = py_startswith (rev s) (rev suffix)"

text \<open>\<open>TTSProcessor._prepare_text_for_swedish\<close>; the dictionary is walked in insertion order.\<close>

definition replacements :: "(pystr \<times> pystr) list" where
  "replacements =
     [(cp ''kr'', cp ''kronor''),
      (cp ''st'', cp ''stycken''),
      (cp ''osv'', cp ''och s'' @ [229] @ cp '' vidare''),
      (cp ''t.ex'', cp ''till exempel''),
      (cp ''ca'', cp ''cirka'')]"

definition prepare_text_for_swedish :: "pystr \<Rightarrow> pystr" where
  "prepare_text_for_swedish text =
     (let text = (if \<not> (py_endswith text (cp ''.'') \<or> py_endswith text (cp ''!'')
                         \<or> py_endswith text (cp ''?''))
                  then text @ cp ''.'' else text)
      in fold (\<lambda>(abbr, full) text.
                 py_replace (cp '' '' @ abbr @ cp ''.'') (cp '' '' @ full @ cp ''.'')
                   (py_replace (cp '' '' @ abbr @ cp '' '') (cp '' '' @ full @ cp '' '') text))
              replacements text)"

text \<open>\<open>open(p, 'rb').read()\<close> on the modelled file system.\<close>

definition read_file :: "tts_env \<Rightarrow> path set \<Rightarrow> path \<Rightarrow> exn + pybytes" where
  "read_file E fs p = (if p \<in> fs then read_bytes E p else Inl (Exn FileNotFoundError p))"

definition remove_if_exists :: "path \<Rightarrow> path set \<Rightarrow> path set" where
  "remove_if_exists p fs = (if p \<in> fs then fs - {p} else fs)"

text \<open>\<open>TTSProcessor._synthesize_with_piper\<close>.\<close>

definition synthesize_with_piper ::
  "tts_env \<Rightarrow> path set \<Rightarrow> pystr \<Rightarrow> pystr \<Rightarrow> (exn + pybytes) \<times> path set" where
  "synthesize_with_piper E fs text output_format =
     (case tts_tmp_create E (cp ''.'' @ output_format) of
        Inl e \<Rightarrow> (Inl e, fs)
      | Inr temp_path \<Rightarrow>
          let fs = insert temp_path fs;
              r = (case piper_run E text temp_path of
                     Raised e \<Rightarrow> Inl e
                   | Completed rc err \<Rightarrow>
                       if rc \<noteq> 0 then Inl (Exn RuntimeError (cp ''Piper TTS failed: '' @ err))
                       else read_file E fs temp_path)
          in (r, remove_if_exists temp_path fs))"

text \<open>\<open>TTSProcessor._synthesize_with_espeak\<close>.\<close>

definition synthesize_with_espeak ::
  "tts_env \<Rightarrow> path set \<Rightarrow> pystr \<Rightarrow> pystr \<Rightarrow> (exn + pybytes) \<times> path set" where
  "synthesize_with_espeak E fs text output_format =
     (case tts_tmp_create E (cp ''.'' @ output_format) of
        Inl e \<Rightarrow> (Inl e, fs)
      | Inr temp_path \<Rightarrow>
          let fs = insert temp_path fs;
              r = (case espeak_run E text temp_path of
                     Raised e \<Rightarrow> Inl e
                   | Completed rc err \<Rightarrow>
                       if rc \<noteq> 0 then Inl (Exn RuntimeError (cp ''eSpeak TTS failed: '' @ err))
                       else read_file E fs temp_path)
          in (r, remove_if_exists temp_path fs))"

text \<open>
  \<open>TTSProcessor._synthesize_with_system\<close>. The converted file \<open>wav_path\<close> is removed only
  after it has been read; the bare \<open>except\<close> falls back to the original file.
\<close>

definition synthesize_with_system ::
  "tts_env \<Rightarrow> path set \<Rightarrow> pystr \<Rightarrow> pystr \<Rightarrow> (exn + pybytes) \<times> path set" where
  "synthesize_with_system E fs text output_format =
     (case tts_tmp_create E (cp ''.aiff'') of
        Inl e \<Rightarrow> (Inl e, fs)
      | Inr temp_path \<Rightarrow>
          let fs = insert temp_path fs
          in case (case say_run E text temp_path of
                     Raised e \<Rightarrow> (Inl e, fs)
                   | Completed rc err \<Rightarrow>
                       if rc \<noteq> 0
                       then (Inl (Exn RuntimeError (cp ''System TTS failed: '' @ err)), fs)
                       else if output_format = cp ''wav''
                       then
                         let wav_path = py_replace (cp ''.aiff'') (cp ''.wav'') temp_path;
                             fs = (if ffmpeg_creates_output E then insert wav_path fs else fs)
                         in case (case ffmpeg_run E temp_path wav_path of
                                    Raised e \<Rightarrow> Inl e
                                  | Completed rc' err' \<Rightarrow> read_file E fs wav_path) of
                              Inr audio_data \<Rightarrow> (Inr audio_data, fs - {wav_path})
                            | Inl e \<Rightarrow> (read_file E fs temp_path, fs)
                       else (read_file E fs temp_path, fs)) of
               (r, fs) \<Rightarrow> (r, remove_if_exists temp_path fs))"

text \<open>The \<open>try\<close> block of \<open>TTSProcessor.synthesize\<close>.\<close>

definition synthesize_body ::
  "tts_processor \<Rightarrow> tts_env \<Rightarrow> path set \<Rightarrow> pystr \<Rightarrow> pystr \<Rightarrow> (exn + pydict) \<times> path set" where
  "synthesize_body T E fs text output_format =
     (if text = [] \<or> py_strip text = [] then (Inl (Exn ValueError (cp ''Text is empty'')), fs)
      else
        let cleaned_text = prepare_text_for_swedish (py_strip text)
        in case (if provider T = cp ''piper''
                 then synthesize_with_piper E fs cleaned_text output_format
                 else if provider T = cp ''espeak''
                 then synthesize_with_espeak E fs cleaned_text output_format
                 else if provider T = cp ''system''
                 then synthesize_with_system E fs cleaned_text output_format
                 else (Inl (Exn ValueError (cp ''Unknown provider: '' @ provider T)), fs)) of
             (Inl e, fs) \<Rightarrow> (Inl e, fs)
           | (Inr audio_data, fs) \<Rightarrow>
               let word_count = length (py_split cleaned_text);
                   estimated_duration = real word_count / 4.5
               in (Inr [(''audio_data'', PBytes audio_data),
                        (''text'', PStr cleaned_text),
                        (''duration'', PFloat (tts_clock_end E - tts_clock_start E)),
                        (''estimated_audio_duration'', PFloat estimated_duration),
                        (''sample_rate'', PInt (int (sample_rate T))),
                        (''channels'', PInt (int (channels T))),
                        (''format'', PStr output_format),
                        (''provider'', PStr (provider T)),
                        (''voice'', PStr (voice T)),
                        (''text_length'', PInt (int (length cleaned_text))),
                        (''word_count'', PInt (int word_count))],
                   fs))"

text \<open>\<open>TTSProcessor.synthesize\<close>: the handler \<open>except Exception\<close> turns every exception of
  the block into an error dictionary.\<close>

definition synthesize ::
  "tts_processor \<Rightarrow> tts_env \<Rightarrow> path set \<Rightarrow> pystr \<Rightarrow> pystr \<Rightarrow> pydict \<times> path set" where
  "synthesize T E fs text output_format =
     (case synthesize_body T E fs text output_format of
        (Inr result, fs) \<Rightarrow> (result, fs)
      | (Inl e, fs) \<Rightarrow>
          ([(''audio_data'', PBytes []),
            (''text'', PStr text),
            (''duration'', PFloat (tts_clock_end E - tts_clock_start E)),
            (''error'', PStr (message e)),
            (''provider'', PStr (provider T))],
           fs))"

section \<open>Predicates used to state the properties\<close>

text \<open>
  A word is a non-empty run of non-whitespace characters. A text is \<open>squeezed\<close> when it
  is a non-empty sequence of words separated by single spaces; \<open>no_repeated_whitespace\<close>
  says that no two neighbouring characters are both whitespace.
\<close>

definition word_ok :: "pystr \<Rightarrow> bool" where
  "word_ok w \<longleftrightarrow> w \<noteq> [] \<and> (\<forall>c\<in>set w. \<not> isspace c)"

fun no_repeated_whitespace :: "pystr \<Rightarrow> bool" where
  "no_repeated_whitespace (a # b # cs) =
     (\<not> (isspace a \<and> isspace b) \<and> no_repeated_whitespace (b # cs))"
| "no_repeated_whitespace cs = True"

definition squeezed :: "pystr \<Rightarrow> bool" where
  "squeezed s \<longleftrightarrow> (\<exists>ws. ws \<noteq> [] \<and> (\<forall>w\<in>set ws. word_ok w) \<and> s = py_join (cp '' '') ws)"

text \<open>
  What the properties of \<open>_clean_transcription\<close> need from the case tables:
  \<open>upper()\<close> of a character that is neither whitespace nor uppercase is non-empty,
  contains no whitespace, and starts with a character that is uppercase or that
  \<open>upper()\<close> leaves alone (\<open>upper_wellformed\<close>). \<open>capital C c\<close> is the character that
  capitalising \<open>c\<close> puts in front: \<open>c\<close> itself when it is uppercase, and otherwise the
  first character of its \<open>upper()\<close>.
\<close>

definition upper_wellformed :: "casing \<Rightarrow> bool" where
  "upper_wellformed C \<longleftrightarrow>
     (\<forall>c. \<not> isspace c \<and> \<not> ch_isupper C c \<longrightarrow>
        ch_upper C c \<noteq> [] \<and> (\<forall>d\<in>set (ch_upper C c). \<not> isspace d) \<and>
        (ch_isupper C (hd (ch_upper C c)) \<or> ch_upper C (hd (ch_upper C c)) = [hd (ch_upper C c)]))"

definition capital :: "casing \<Rightarrow> codepoint \<Rightarrow> codepoint" where
  "capital C c = (if ch_isupper C c then c else hd (ch_upper C c))"

definition capitalized :: "casing \<Rightarrow> pystr \<Rightarrow> bool" where
  "capitalized C s \<longleftrightarrow> ch_isupper C (hd s) \<or> ch_upper C (hd s) = [hd s]"

definition sentence_end :: "pystr \<Rightarrow> bool" where
  "sentence_end s \<longleftrightarrow> s \<noteq> [] \<and> last s \<in> set (cp ''.!?'')"

text \<open>
  What the processors do to the loaded samples before the model sees them, written out:
  a leading part is kept whose length \<open>kept_samples\<close> depends only on how many samples
  were loaded (all of them, or the limit of the maximum duration), never on their
  values; every kept sample is shifted by the mean and divided by the peak
  (\<open>rescaled\<close>); and the result goes through the external high-pass filter when that
  succeeds (\<open>prepared_audio\<close>).
\<close>

definition kept_samples :: "processor \<Rightarrow> real option \<Rightarrow> nat \<Rightarrow> nat" where
  "kept_samples P max_duration_arg n =
     (let max_dur = (case max_duration_arg of
                       None \<Rightarrow> max_duration P
                     | Some d \<Rightarrow> if d = 0 then max_duration P else d);
          limit = py_int (max_dur * real (target_sample_rate P))
      in if real n / real (target_sample_rate P) < min_duration P then n
         else if real n / real (target_sample_rate P) > max_dur
         then (if 0 \<le> limit then min (nat limit) n else n - nat (- limit))
         else n)"

definition rescaled :: "real list \<Rightarrow> real list" where
  "rescaled xs =
     (let mean = sum_list xs / real (length xs);
          peak = Max (set (map (\<lambda>x. \<bar>x - mean\<bar>) xs))
      in map (\<lambda>x. if peak > 0 then (x - mean) / peak else x - mean) xs)"

definition prepared_audio :: "processor \<Rightarrow> stt_env \<Rightarrow> real option \<Rightarrow> real list \<Rightarrow> real list" where
  "prepared_audio P E max_duration_arg xs =
     (let z = rescaled (take (kept_samples P max_duration_arg (length xs)) xs)
      in case butter_sosfilt E z of Inl e \<Rightarrow> z | Inr filtered \<Rightarrow> filtered)"

text \<open>One adjustment of the quality score: multiplied by the factor when the condition
  holds, unchanged otherwise.\<close>

definition scaled_when :: "bool \<Rightarrow> real \<Rightarrow> real \<Rightarrow> real" where
  "scaled_when condition score factor = (if condition then float_mul score factor else score)"

text \<open>Whether an availability probe found its binary: the return code was zero; or not:
  the binary was missing, the probe timed out, or the return code was not zero.\<close>

fun available :: "proc_result \<Rightarrow> bool" where
  "available (Completed rc err) = (rc = 0)"
| "available (Raised e) = False"

fun unavailable :: "proc_result \<Rightarrow> bool" where
  "unavailable (Completed rc err) = (rc \<noteq> 0)"
| "unavailable (Raised e) = (kind e = TimeoutExpired \<or> kind e = FileNotFoundError)"

text \<open>The calls made to the model between two states.\<close>

definition new_model_calls :: "world \<Rightarrow> world \<Rightarrow> transcribe_args list" where
  "new_model_calls W W' = drop (length (model_calls W)) (model_calls W')"

section \<open>Concrete processors and environments\<close>

text \<open>
  A TTS environment with the given outcomes of the three probes, in which every
  synthesis command succeeds and every file reads as two bytes; and a speech-to-text
  environment in which the audio decodes to three samples and the model reports Swedish
  with probability \<open>0.9\<close>.
\<close>

definition example_tts_env :: "proc_result \<Rightarrow> proc_result \<Rightarrow> proc_result \<Rightarrow> tts_env" where
  "example_tts_env piper espeak say =
     \<lparr> tts_clock_start = 10, tts_clock_end = 12,
       piper_help = piper, espeak_version = espeak, say_version = say,
       tts_tmp_create = (\<lambda>suffix. Inr (cp ''/tmp/tmpa1'' @ suffix)),
       piper_run = (\<lambda>text out. Completed 0 []),
       espeak_run = (\<lambda>text out. Completed 0 []),
       say_run = (\<lambda>text out. Completed 0 []),
       ffmpeg_run = (\<lambda>src dst. Completed 0 []),
       ffmpeg_creates_output = True,
       read_bytes = (\<lambda>p. Inr [82, 73]) \<rparr>"

definition example_tts_processor :: tts_processor where
  "example_tts_processor =
     \<lparr> provider = cp ''espeak'', voice = cp ''swedish_female'', tts_device = cp ''auto'',
       sample_rate = 22050, channels = 1, bit_depth = 16,
       piper_available = False, espeak_available = True, system_available = False \<rparr>"

definition example_processor :: processor where
  "example_processor = WhisperXProcessor_init False (cp ''base'') (cp ''sv'') (cp ''auto'')"

definition example_env :: stt_env where
  "example_env =
     \<lparr> clock_start = 10, clock_end = 12,
       tmp_create = (\<lambda>suffix. Inr (cp ''/tmp/tmpb2'' @ suffix)),
       tmp_write = None,
       librosa_load = (\<lambda>p. Inr [1, 0, - 1]),
       scipy_import = None,
       butter_sosfilt = (\<lambda>xs. Inr xs),
       model_transcribe =
         (\<lambda>a. Inr ([\<lparr>seg_text = cp '' hej du'', avg_logprob = Some 0\<rparr>],
                   \<lparr>language = Some (cp ''sv''), language_probability = Some 0.9\<rparr>)) \<rparr>"

definition example_world :: world where
  "example_world = \<lparr> files = {}, model_calls = [] \<rparr>"


section \<open>Properties: whitespace splitting and joining\<close>

lemma py_split_empty: "dropWhile isspace s = [] \<Longrightarrow> py_split s = []"
  by (subst py_split.simps) simp

lemma py_split_step:
  "dropWhile isspace s \<noteq> [] \<Longrightarrow>
   py_split s = takeWhile (\<lambda>c. \<not> isspace c) (dropWhile isspace s) #
                py_split (dropWhile (\<lambda>c. \<not> isspace c) (dropWhile isspace s))"
  by (subst py_split.simps) (simp add: Let_def)

lemma py_split_words_ok: "w \<in> set (py_split s) \<Longrightarrow> word_ok w"
proof (induction s arbitrary: w rule: py_split.induct)
  case (1 s)
  define s' where "s' = dropWhile isspace s"
  show ?case
  proof (cases "s' = []")
    case True
    with "1.prems" show ?thesis by (simp add: py_split_empty s'_def)
  next
    case False
    then have hd: "\<not> isspace (hd s')" unfolding s'_def by (rule hd_dropWhile)
    from "1.prems" False
    consider "w = takeWhile (\<lambda>c. \<not> isspace c) s'"
      | "w \<in> set (py_split (dropWhile (\<lambda>c. \<not> isspace c) s'))"
      unfolding s'_def by (auto simp: py_split_step [of s])
    then show ?thesis
    proof cases
      case 1
      from False hd have "takeWhile (\<lambda>c. \<not> isspace c) s' \<noteq> []"
        by (cases s') auto
      moreover have "\<forall>c\<in>set (takeWhile (\<lambda>c. \<not> isspace c) s'). \<not> isspace c"
        by (auto dest: set_takeWhileD)
      ultimately show ?thesis using 1 by (simp add: word_ok_def)
    next
      case 2
      with "1.IH" [OF s'_def False] show ?thesis by simp
    qed
  qed
qed

lemma py_split_dropWhile: "py_split (dropWhile isspace s) = py_split s"
  by (cases "dropWhile isspace s = []") (simp_all add: py_split_empty py_split_step)

lemma py_split_Nil: "py_split [] = []"
  by (simp add: py_split_empty)

lemma py_split_space: "isspace c \<Longrightarrow> py_split (c # s) = py_split s"
  using py_split_dropWhile [of "c # s"] py_split_dropWhile [of s] by simp

lemma py_split_word:
  assumes "word_ok w" and "r = [] \<or> isspace (hd r)"
  shows "py_split (w @ r) = w # py_split r"
proof -
  from assms(1) obtain a w' where w: "w = a # w'" and a: "\<not> isspace a"
    by (cases w) (auto simp: word_ok_def)
  have d: "dropWhile isspace (w @ r) = w @ r" using w a by simp
  have all: "\<And>x. x \<in> set w \<Longrightarrow> \<not> isspace x" using assms(1) by (simp add: word_ok_def)
  have r1: "takeWhile (\<lambda>c. \<not> isspace c) r = []" using assms(2) by (cases r) auto
  have r2: "dropWhile (\<lambda>c. \<not> isspace c) r = r" using assms(2) by (cases r) auto
  have t: "takeWhile (\<lambda>c. \<not> isspace c) (w @ r) = w"
    using all r1 by simp
  have dd: "dropWhile (\<lambda>c. \<not> isspace c) (w @ r) = r"
    using all r2 by simp
  have "w @ r \<noteq> []" using w by simp
  then show ?thesis
    using d t dd py_split_step [of "w @ r"] by simp
qed

lemma py_split_join:
  "(\<forall>w\<in>set ws. word_ok w) \<Longrightarrow> py_split (py_join (cp '' '') ws) = ws"
proof (induction "cp '' ''" ws rule: py_join.induct)
  case 1
  then show ?case by (simp add: py_split_Nil)
next
  case (2 w)
  then show ?case using py_split_word [of w "[]"] by (simp add: py_split_Nil)
next
  case (3 w v ws)
  have sp: "isspace 32" by (simp add: isspace_def)
  have "py_split (w @ 32 # py_join (cp '' '') (v # ws)) = w # py_split (32 # py_join (cp '' '') (v # ws))"
    using 3 by (intro py_split_word) (simp_all add: sp)
  also have "py_split (32 # py_join (cp '' '') (v # ws)) = v # ws"
    using 3 by (simp add: py_split_space sp)
  finally show ?case by (simp add: cp_def)
qed

lemma py_join_Cons: "py_join sep (w # ws) = w @ (if ws = [] then [] else sep @ py_join sep ws)"
  by (cases ws) simp_all

lemma py_join_snoc:
  "ws \<noteq> [] \<Longrightarrow> py_join sep (butlast ws @ [last ws @ x]) = py_join sep ws @ x"
proof (induction sep ws rule: py_join.induct)
  case (3 sep w v ws)
  then show ?case by (cases "butlast (v # ws) @ [last (v # ws) @ x]") (auto split: if_splits)
qed simp_all

lemma py_join_hd: "w \<noteq> [] \<Longrightarrow> hd (py_join sep (w # ws)) = hd w"
  by (simp add: py_join_Cons)

lemma py_join_last_ne: "ws \<noteq> [] \<Longrightarrow> last ws \<noteq> [] \<Longrightarrow> py_join sep ws \<noteq> []"
  by (induction sep ws rule: py_join.induct) simp_all

lemma py_join_last:
  "ws \<noteq> [] \<Longrightarrow> last ws \<noteq> [] \<Longrightarrow> last (py_join sep ws) = last (last ws)"
proof (induction sep ws rule: py_join.induct)
  case (3 sep w v ws)
  then have "py_join sep (v # ws) \<noteq> []" by (intro py_join_last_ne) simp_all
  with 3 show ?case by simp
qed simp_all

lemma py_join_ne: "w \<noteq> [] \<Longrightarrow> py_join sep (w # ws) \<noteq> []"
  by (simp add: py_join_Cons)

lemma no_repeated_whitespace_word:
  "(\<forall>c\<in>set w. \<not> isspace c) \<Longrightarrow> no_repeated_whitespace r \<Longrightarrow> no_repeated_whitespace (w @ r)"
proof (induction w)
  case Nil
  then show ?case by simp
next
  case (Cons a w)
  then show ?case by (cases "w @ r") auto
qed

lemma no_repeated_whitespace_join:
  "(\<forall>w\<in>set ws. word_ok w) \<Longrightarrow> no_repeated_whitespace (py_join (cp '' '') ws)"
proof (induction "cp '' ''" ws rule: py_join.induct)
  case 1
  then show ?case by simp
next
  case (2 w)
  then show ?case using no_repeated_whitespace_word [of w "[]"] by (simp add: word_ok_def)
next
  case (3 w v ws)
  from 3 have v: "v \<noteq> []" "\<not> isspace (hd v)" by (auto simp: word_ok_def)
  then have "py_join (cp '' '') (v # ws) \<noteq> []" "\<not> isspace (hd (py_join (cp '' '') (v # ws)))"
    by (simp_all add: py_join_ne py_join_hd)
  moreover from 3 have "no_repeated_whitespace (py_join (cp '' '') (v # ws))" by simp
  ultimately have "no_repeated_whitespace (32 # py_join (cp '' '') (v # ws))"
    by (cases "py_join (cp '' '') (v # ws)") auto
  with 3 show ?case
    using no_repeated_whitespace_word [of w "32 # py_join (cp '' '') (v # ws)"]
    by (simp add: word_ok_def cp_def)
qed

lemma py_strip_id: "s \<noteq> [] \<Longrightarrow> \<not> isspace (hd s) \<Longrightarrow> \<not> isspace (last s) \<Longrightarrow> py_strip s = s"
proof -
  assume s: "s \<noteq> []" and h: "\<not> isspace (hd s)" and l: "\<not> isspace (last s)"
  from s h have 1: "dropWhile isspace s = s" by (cases s) auto
  from s l have "\<not> isspace (hd (rev s))" by (simp add: hd_rev)
  with s have 2: "dropWhile isspace (rev s) = rev s" by (cases "rev s") auto
  show ?thesis by (simp add: py_strip_def 1 2)
qed

lemma squeezed_facts:
  assumes "squeezed s"
  shows "s \<noteq> []" and "\<not> isspace (hd s)" and "\<not> isspace (last s)"
    and "no_repeated_whitespace s" and "py_join (cp '' '') (py_split s) = s" and "py_strip s = s"
proof -
  from assms obtain ws where ws: "ws \<noteq> []" "\<forall>w\<in>set ws. word_ok w" "s = py_join (cp '' '') ws"
    by (auto simp: squeezed_def)
  from ws obtain w ws' where c: "ws = w # ws'" by (cases ws) auto
  with ws have w: "w \<noteq> []" "\<not> isspace (hd w)" by (auto simp: word_ok_def)
  from ws have "word_ok (last ws)" by simp
  then have lw: "last ws \<noteq> []" "\<not> isspace (last (last ws))"
    by (simp_all add: word_ok_def)
  show 1: "s \<noteq> []" using ws c w by (simp add: py_join_ne)
  show 2: "\<not> isspace (hd s)" using ws c w by (simp add: py_join_hd)
  show 3: "\<not> isspace (last s)" using ws lw by (simp add: py_join_last)
  show "no_repeated_whitespace s" using ws by (simp add: no_repeated_whitespace_join)
  show "py_join (cp '' '') (py_split s) = s" using ws by (simp add: py_split_join)
  show "py_strip s = s" using 1 2 3 by (rule py_strip_id)
qed

lemma squeezed_split: "py_split t \<noteq> [] \<Longrightarrow> squeezed (py_join (cp '' '') (py_split t))"
  unfolding squeezed_def using py_split_words_ok by blast

lemma squeezed_replace_head:
  assumes "squeezed s" and "word_ok u"
  shows "squeezed (u @ tl s)"
proof -
  from assms obtain ws where ws: "ws \<noteq> []" "\<forall>w\<in>set ws. word_ok w" "s = py_join (cp '' '') ws"
    by (auto simp: squeezed_def)
  from ws obtain w ws' where c: "ws = w # ws'" by (cases ws) auto
  with ws have w: "w \<noteq> []" by (auto simp: word_ok_def)
  have "u @ tl s = py_join (cp '' '') ((u @ tl w) # ws')"
    using ws c w by (simp add: py_join_Cons)
  moreover have "word_ok (u @ tl w)"
    using assms(2) ws c w by (auto simp: word_ok_def dest: list.set_sel(2))
  ultimately show ?thesis
    unfolding squeezed_def using ws c by (intro exI [of _ "(u @ tl w) # ws'"]) simp
qed

lemma squeezed_snoc:
  assumes "squeezed s" and "\<not> isspace d"
  shows "squeezed (s @ [d])"
proof -
  from assms obtain ws where ws: "ws \<noteq> []" "\<forall>w\<in>set ws. word_ok w" "s = py_join (cp '' '') ws"
    by (auto simp: squeezed_def)
  let ?ws = "butlast ws @ [last ws @ [d]]"
  have "s @ [d] = py_join (cp '' '') ?ws" using ws by (simp add: py_join_snoc)
  moreover have "\<forall>w\<in>set ?ws. word_ok w"
    using ws assms(2) by (auto simp: word_ok_def dest: in_set_butlastD)
  ultimately show ?thesis unfolding squeezed_def by (intro exI [of _ ?ws]) simp
qed

lemma py_split_Nil_iff: "py_split t = [] \<longleftrightarrow> (\<forall>c\<in>set t. isspace c)"
proof (cases "dropWhile isspace t = []")
  case True
  then show ?thesis by (simp add: py_split_empty)
next
  case False
  then show ?thesis by (simp add: py_split_step)
qed

lemma clean_transcription_steps:
  assumes "t \<noteq> []"
    and "s1 = py_strip (py_join (cp '' '') (py_split t))"
    and "s2 = (if s1 \<noteq> [] \<and> \<not> ch_isupper C (hd s1) then ch_upper C (hd s1) @ tl s1 else s1)"
    and "s3 = (if s2 \<noteq> [] \<and> last s2 \<notin> set (cp ''.!?'') then s2 @ cp ''.'' else s2)"
  shows "clean_transcription C t = s3"
  using assms by (simp add: clean_transcription_def Let_def)

lemma clean_transcription_blank:
  "py_split t = [] \<Longrightarrow> clean_transcription C t = []"
  by (simp add: clean_transcription_def py_strip_def Let_def)

lemma clean_transcription_fixed:
  assumes "squeezed s" and "capitalized C s" and "sentence_end s"
  shows "clean_transcription C s = s"
proof -
  note f = squeezed_facts [OF assms(1)]
  have 1: "s = py_strip (py_join (cp '' '') (py_split s))" using f(5,6) by simp
  have 2: "s = (if s \<noteq> [] \<and> \<not> ch_isupper C (hd s) then ch_upper C (hd s) @ tl s else s)"
    using assms(2) f(1) by (auto simp: capitalized_def)
  have 3: "s = (if s \<noteq> [] \<and> last s \<notin> set (cp ''.!?'') then s @ cp ''.'' else s)"
    using assms(3) by (simp add: sentence_end_def)
  show ?thesis by (rule clean_transcription_steps [OF f(1) 1 2 3])
qed

lemma clean_transcription_shape:
  assumes ne: "py_split t \<noteq> []" and C: "upper_wellformed C"
  shows "squeezed (clean_transcription C t)"
    and "capitalized C (clean_transcription C t)"
    and "sentence_end (clean_transcription C t)"
    and "hd (clean_transcription C t) =
           (let c = hd (hd (py_split t)) in if ch_isupper C c then c else hd (ch_upper C c))"
proof -
  define s1 where "s1 = py_join (cp '' '') (py_split t)"
  define s2 where "s2 = (if \<not> ch_isupper C (hd s1) then ch_upper C (hd s1) @ tl s1 else s1)"
  define s3 where "s3 = (if last s2 \<notin> set (cp ''.!?'') then s2 @ cp ''.'' else s2)"
  have sq1: "squeezed s1" unfolding s1_def using ne by (rule squeezed_split)
  note f1 = squeezed_facts [OF sq1]
  from ne have t: "t \<noteq> []" by (auto simp: py_split_Nil)
  from ne obtain w ws where sp: "py_split t = w # ws" by (cases "py_split t") auto
  then have "word_ok w" using py_split_words_ok [of w t] by simp
  then have hd1: "hd s1 = hd (hd (py_split t))"
    unfolding s1_def sp by (simp add: py_join_hd word_ok_def)
  have u: "\<not> ch_isupper C (hd s1) \<Longrightarrow> word_ok (ch_upper C (hd s1))"
    using C f1(2) by (simp add: upper_wellformed_def word_ok_def)
  have sq2: "squeezed s2"
    unfolding s2_def using sq1 u by (simp add: squeezed_replace_head)
  have hd2: "hd s2 = (if ch_isupper C (hd s1) then hd s1 else hd (ch_upper C (hd s1)))"
    unfolding s2_def using u by (simp add: word_ok_def)
  have cap2: "capitalized C s2"
    unfolding capitalized_def hd2 using C f1(2) by (auto simp: upper_wellformed_def)
  note f2 = squeezed_facts [OF sq2]
  have dot: "\<not> isspace 46" by (simp add: isspace_def)
  have sq3: "squeezed s3"
    unfolding s3_def using sq2 squeezed_snoc [OF sq2 dot] by (simp add: cp_def)
  have hd3: "hd s3 = hd s2" unfolding s3_def using f2(1) by simp
  have end3: "sentence_end s3"
    unfolding s3_def sentence_end_def using f2(1) by (simp add: cp_def)
  have r1: "s1 = py_strip (py_join (cp '' '') (py_split t))"
    using f1(6) by (simp add: s1_def)
  have r2: "s2 = (if s1 \<noteq> [] \<and> \<not> ch_isupper C (hd s1) then ch_upper C (hd s1) @ tl s1 else s1)"
    using f1(1) by (simp add: s2_def)
  have r3: "s3 = (if s2 \<noteq> [] \<and> last s2 \<notin> set (cp ''.!?'') then s2 @ cp ''.'' else s2)"
    using f2(1) by (simp add: s3_def)
  have res: "clean_transcription C t = s3"
    by (rule clean_transcription_steps [OF t r1 r2 r3])
  show "squeezed (clean_transcription C t)" using res sq3 by simp
  show "capitalized C (clean_transcription C t)"
    using res cap2 hd3 by (simp add: capitalized_def)
  show "sentence_end (clean_transcription C t)" using res end3 by simp
  show "hd (clean_transcription C t) =
           (let c = hd (hd (py_split t)) in if ch_isupper C c then c else hd (ch_upper C c))"
    using res hd3 hd2 hd1 by (simp add: Let_def)
qed

lemma clean_transcription_idem:
  assumes "upper_wellformed C"
  shows "clean_transcription C (clean_transcription C t) = clean_transcription C t"
proof (cases "py_split t = []")
  case True
  then have "clean_transcription C t = []" by (rule clean_transcription_blank)
  then show ?thesis by (simp add: clean_transcription_def)
next
  case False
  from clean_transcription_shape(1-3) [OF False assms] show ?thesis
    by (rule clean_transcription_fixed)
qed

lemma ascii_wellformed: "upper_wellformed ascii_casing"
  by (auto simp: upper_wellformed_def ascii_casing_def isspace_def)

section \<open>Properties of \<open>_clean_transcription\<close>\<close>

text \<open>
  C10, the claim as stated: for all-whitespace input \<open>_clean_transcription\<close> returns
  \<open>"."\<close>. It does not: \<open>" ".join(text.split())\<close> is then empty, and both later steps
  are guarded by \<open>if text and ...\<close>, so the result is the empty string.
\<close>

theorem clean_transcription_whitespace_counterexample:
  "clean_transcription ascii_casing (cp ''   '') \<noteq> cp ''.''"
  by (simp add: clean_transcription_def cp_def py_split_empty isspace_def py_strip_def)

lemma py_split_first_char:
  assumes "py_split t \<noteq> []"
  shows "hd (hd (py_split t)) = hd (dropWhile isspace t)"
proof -
  from assms have ne: "dropWhile isspace t \<noteq> []" using py_split_empty [of t] by auto
  then obtain x xs where d: "dropWhile isspace t = x # xs" by (meson neq_Nil_conv)
  from ne have "\<not> isspace (hd (dropWhile isspace t))" by (rule hd_dropWhile)
  with d have "\<not> isspace x" by simp
  then show ?thesis using py_split_step [OF ne] d by simp
qed

lemma kra_wellformed: "upper_wellformed kra_casing"
  by (auto simp: upper_wellformed_def kra_casing_def ascii_casing_def isspace_def)

text \<open>
  C10, as amended: \<open>_clean_transcription\<close> is idempotent; for every input with at least
  one non-whitespace character the output is non-empty, has no leading, trailing or
  repeated whitespace and ends with \<open>.\<close>, \<open>!\<close> or \<open>?\<close>, and its first character is
  the capital of the first non-whitespace character of the input (that character itself
  when it is uppercase, otherwise the first character of its \<open>upper()\<close>), so it is not a
  lowercase letter unless that capital is one; for empty or all-whitespace input the
  output is the empty string. The case tables are assumed well-formed
  (\<open>upper_wellformed\<close>).
\<close>

theorem clean_transcription_spec:
  assumes "upper_wellformed C"
  shows "clean_transcription C (clean_transcription C t) = clean_transcription C t \<and>
    ((\<exists>c\<in>set t. \<not> isspace c) \<longrightarrow>
       clean_transcription C t \<noteq> [] \<and>
       \<not> isspace (hd (clean_transcription C t)) \<and>
       \<not> isspace (last (clean_transcription C t)) \<and>
       no_repeated_whitespace (clean_transcription C t) \<and>
       last (clean_transcription C t) \<in> set (cp ''.!?'') \<and>
       hd (clean_transcription C t) = capital C (hd (dropWhile isspace t)) \<and>
       (\<not> ch_islower C (capital C (hd (dropWhile isspace t))) \<longrightarrow>
          \<not> ch_islower C (hd (clean_transcription C t)))) \<and>
    ((\<forall>c\<in>set t. isspace c) \<longrightarrow> clean_transcription C t = [])"
proof (intro conjI impI)
  show "clean_transcription C (clean_transcription C t) = clean_transcription C t"
    using assms by (rule clean_transcription_idem)
next
  assume "\<forall>c\<in>set t. isspace c"
  then have "py_split t = []" by (simp add: py_split_Nil_iff)
  then show "clean_transcription C t = []" by (rule clean_transcription_blank)
next
  assume "\<exists>c\<in>set t. \<not> isspace c"
  then have ne: "py_split t \<noteq> []" by (simp add: py_split_Nil_iff)
  note sh = clean_transcription_shape [OF ne assms]
  note f = squeezed_facts [OF sh(1)]
  show "clean_transcription C t \<noteq> []" by (rule f(1))
  show "\<not> isspace (hd (clean_transcription C t))" by (rule f(2))
  show "\<not> isspace (last (clean_transcription C t))" by (rule f(3))
  show "no_repeated_whitespace (clean_transcription C t)" by (rule f(4))
  show "last (clean_transcription C t) \<in> set (cp ''.!?'')"
    using sh(3) by (simp add: sentence_end_def)
  show first: "hd (clean_transcription C t) = capital C (hd (dropWhile isspace t))"
    unfolding sh(4) py_split_first_char [OF ne] by (simp add: capital_def)
  assume "\<not> ch_islower C (capital C (hd (dropWhile isspace t)))"
  then show "\<not> ch_islower C (hd (clean_transcription C t))" unfolding first .
qed

theorem clean_transcription_spec_witness:
  "upper_wellformed kra_casing \<and>
   (\<exists>c\<in>set (cp ''  hej  du ''). \<not> isspace c) \<and>
   clean_transcription kra_casing (cp ''  hej  du '') = cp ''Hej du.'' \<and>
   clean_transcription kra_casing (cp ''Hej du.'') = cp ''Hej du.'' \<and>
   capital kra_casing (hd (dropWhile isspace (cp ''  hej  du ''))) = 72 \<and>
   \<not> ch_islower kra_casing 72 \<and>
   \<not> ch_islower kra_casing (hd (clean_transcription kra_casing (cp ''  hej  du ''))) \<and>
   list_all isspace (cp ''   '') \<and>
   clean_transcription kra_casing (cp ''   '') = []"
proof -
  have e: "clean_transcription kra_casing (cp ''  hej  du '') = cp ''Hej du.''"
    by (simp add: clean_transcription_def cp_def py_split.simps isspace_def py_strip_def
          kra_casing_def ascii_casing_def)
  have c: "capital kra_casing (hd (dropWhile isspace (cp ''  hej  du ''))) = 72"
    by (simp add: capital_def cp_def isspace_def kra_casing_def ascii_casing_def)
  have l: "\<not> ch_islower kra_casing 72" by (simp add: kra_casing_def ascii_casing_def)
  have b: "\<forall>c\<in>set (cp ''   ''). isspace c" by (simp add: cp_def isspace_def)
  have n: "\<exists>c\<in>set (cp ''  hej  du ''). \<not> isspace c" by (simp add: cp_def isspace_def)
  from clean_transcription_spec [OF kra_wellformed, of "cp ''  hej  du ''"]
    clean_transcription_spec [OF kra_wellformed, of "cp ''   ''"] e c l b n kra_wellformed
  show ?thesis by (simp add: list_all_iff)
qed

text \<open>
  The first character can stay a lowercase letter: one without an uppercase form is its
  own capital.
\<close>

lemma clean_transcription_kra:
  "clean_transcription kra_casing [312, 97] = [312, 97, 46] \<and> ch_islower kra_casing 312"
  by (simp add: clean_transcription_def kra_casing_def ascii_casing_def cp_def py_split.simps
        isspace_def py_strip_def)

section \<open>Properties of the TTS provider initialisation\<close>

text \<open>
  C1: a processor constructed with provider \<open>piper\<close> whose piper binary is unavailable
  (missing, timing out, or returning a non-zero code) gets provider \<open>espeak\<close>; if espeak
  is unavailable too it gets \<open>system\<close>; and if the system TTS is unavailable as well,
  construction raises \<open>RuntimeError("No TTS providers available")\<close>.
\<close>

theorem tts_provider_fallback:
  assumes "unavailable (piper_help E)"
  shows "(available (espeak_version E) \<longrightarrow>
            (\<exists>T. TTSProcessor_init E (cp ''piper'') v d = Inr T \<and> provider T = cp ''espeak'')) \<and>
         (unavailable (espeak_version E) \<and> available (say_version E) \<longrightarrow>
            (\<exists>T. TTSProcessor_init E (cp ''piper'') v d = Inr T \<and> provider T = cp ''system'')) \<and>
         (unavailable (espeak_version E) \<and> unavailable (say_version E) \<longrightarrow>
            TTSProcessor_init E (cp ''piper'') v d
              = Inl (Exn RuntimeError (cp ''No TTS providers available'')))"
proof -
  have piper: "TTSProcessor_init E (cp ''piper'') v d =
      initialize_espeak E
        \<lparr> provider = cp ''espeak'', voice = v, tts_device = d,
          sample_rate = 22050, channels = 1, bit_depth = 16,
          piper_available = False, espeak_available = False, system_available = False \<rparr>"
    using assms
    by (cases "piper_help E")
       (auto simp: TTSProcessor_init_def initialize_provider_def initialize_piper_def
          probe_caught_def)
  show ?thesis
    unfolding piper
    by (cases "espeak_version E"; cases "say_version E")
       (auto simp: initialize_espeak_def initialize_system_def probe_caught_def cp_def)
qed

theorem tts_provider_fallback_witness:
  "unavailable (Raised (Exn FileNotFoundError (cp ''piper''))) \<and>
   available (Completed 0 []) \<and>
   (\<exists>T. TTSProcessor_init
          (example_tts_env (Raised (Exn FileNotFoundError (cp ''piper''))) (Completed 0 [])
             (Completed 0 []))
          (cp ''piper'') (cp ''swedish_female'') (cp ''auto'') = Inr T
        \<and> provider T = cp ''espeak'') \<and>
   unavailable (Completed 1 []) \<and>
   (\<exists>T. TTSProcessor_init
          (example_tts_env (Raised (Exn TimeoutExpired [])) (Completed 1 []) (Completed 0 []))
          (cp ''piper'') (cp ''swedish_female'') (cp ''auto'') = Inr T
        \<and> provider T = cp ''system'') \<and>
   TTSProcessor_init
     (example_tts_env (Completed 1 []) (Raised (Exn FileNotFoundError (cp ''espeak'')))
        (Raised (Exn FileNotFoundError (cp ''say''))))
     (cp ''piper'') (cp ''swedish_female'') (cp ''auto'')
     = Inl (Exn RuntimeError (cp ''No TTS providers available''))"
proof -
  let ?E1 = "example_tts_env (Raised (Exn FileNotFoundError (cp ''piper''))) (Completed 0 [])
               (Completed 0 [])"
  let ?E2 = "example_tts_env (Raised (Exn TimeoutExpired [])) (Completed 1 []) (Completed 0 [])"
  let ?E3 = "example_tts_env (Completed 1 []) (Raised (Exn FileNotFoundError (cp ''espeak'')))
               (Raised (Exn FileNotFoundError (cp ''say'')))"
  have 1: "unavailable (piper_help ?E1)" by (simp add: example_tts_env_def)
  have 2: "unavailable (piper_help ?E2)" by (simp add: example_tts_env_def)
  have 3: "unavailable (piper_help ?E3)" by (simp add: example_tts_env_def)
  from tts_provider_fallback [OF 1, of "cp ''swedish_female''" "cp ''auto''"]
    tts_provider_fallback [OF 2, of "cp ''swedish_female''" "cp ''auto''"]
    tts_provider_fallback [OF 3, of "cp ''swedish_female''" "cp ''auto''"]
  show ?thesis by (simp add: example_tts_env_def)
qed

section \<open>Properties of \<open>synthesize\<close>\<close>

lemma py_strip_Nil_iff: "py_strip s = [] \<longleftrightarrow> (\<forall>c\<in>set s. isspace c)"
proof
  assume "py_strip s = []"
  then have e: "dropWhile isspace (rev (dropWhile isspace s)) = []"
    by (simp add: py_strip_def)
  show "\<forall>c\<in>set s. isspace c"
  proof (cases "dropWhile isspace s = []")
    case True
    then show ?thesis by (simp add: dropWhile_eq_Nil_conv)
  next
    case False
    then have "\<not> isspace (hd (dropWhile isspace s))" by (rule hd_dropWhile)
    moreover from e have "\<forall>c\<in>set (dropWhile isspace s). isspace c"
      by (simp add: dropWhile_eq_Nil_conv)
    ultimately show ?thesis using False by (metis hd_in_set)
  qed
next
  assume "\<forall>c\<in>set s. isspace c"
  then have d: "dropWhile isspace s = []" by (simp add: dropWhile_eq_Nil_conv)
  show "py_strip s = []" unfolding py_strip_def d by simp
qed

text \<open>
  C4: for an empty or all-whitespace text \<open>synthesize\<close> returns (it has no exceptional
  outcome: its handler catches every exception of the block) a dictionary whose
  \<open>audio_data\<close> is the empty byte string and whose \<open>error\<close> is \<open>Text is empty\<close>; no file
  is created.
\<close>

theorem synthesize_empty_text:
  assumes "text = [] \<or> (\<forall>c\<in>set text. isspace c)"
  shows "snd (synthesize T E fs text output_format) = fs \<and>
         map_of (fst (synthesize T E fs text output_format)) ''audio_data'' = Some (PBytes []) \<and>
         map_of (fst (synthesize T E fs text output_format)) ''error''
           = Some (PStr (cp ''Text is empty''))"
proof -
  from assms have "text = [] \<or> py_strip text = []" by (auto simp: py_strip_Nil_iff)
  then have "synthesize_body T E fs text output_format
               = (Inl (Exn ValueError (cp ''Text is empty'')), fs)"
    by (simp add: synthesize_body_def)
  then show ?thesis by (simp add: synthesize_def)
qed

theorem synthesize_empty_text_witness:
  "list_all isspace (cp ''   '') \<and>
   synthesize example_tts_processor
       (example_tts_env (Completed 0 []) (Completed 0 []) (Completed 0 [])) {} (cp ''   '') (cp ''wav'')
     = ([(''audio_data'', PBytes []), (''text'', PStr (cp ''   '')), (''duration'', PFloat 2),
         (''error'', PStr (cp ''Text is empty'')), (''provider'', PStr (cp ''espeak''))], {}) \<and>
   map_of (fst (synthesize example_tts_processor
       (example_tts_env (Completed 0 []) (Completed 0 []) (Completed 0 [])) {} (cp ''   '') (cp ''wav'')))
     ''error'' = Some (PStr (cp ''Text is empty''))"
proof -
  have b: "cp ''   '' = [] \<or> (\<forall>c\<in>set (cp ''   ''). isspace c)"
    by (simp add: cp_def isspace_def)
  have l: "list_all isspace (cp ''   '')" by (simp add: cp_def isspace_def)
  have e: "synthesize example_tts_processor
       (example_tts_env (Completed 0 []) (Completed 0 []) (Completed 0 [])) {} (cp ''   '') (cp ''wav'')
     = ([(''audio_data'', PBytes []), (''text'', PStr (cp ''   '')), (''duration'', PFloat 2),
         (''error'', PStr (cp ''Text is empty'')), (''provider'', PStr (cp ''espeak''))], {})"
    by (simp add: synthesize_def synthesize_body_def py_strip_def cp_def isspace_def
          example_tts_env_def example_tts_processor_def)
  note t = synthesize_empty_text [OF b, of example_tts_processor
       "example_tts_env (Completed 0 []) (Completed 0 []) (Completed 0 [])" "{}" "cp ''wav''"]
  show ?thesis by (intro conjI l e t [THEN conjunct2, THEN conjunct2])
qed

section \<open>Properties of \<open>detect_language\<close>\<close>

text \<open>
  C9: for an audio buffer that is empty or shorter than 1024 bytes \<open>detect_language\<close>
  does not raise: it returns the fallback dictionary, with the default language,
  confidence \<open>0.5\<close>, the single entry of the default language with confidence \<open>0.5\<close> in
  \<open>all_languages\<close>, and an \<open>error\<close> field.
\<close>

theorem detect_language_small_buffer:
  assumes "audio_buffer = [] \<or> length audio_buffer < 1024"
  shows "\<exists>r. detect_language P E W audio_buffer audio_format langs = (Inr r, W) \<and>
           map_of r ''detected_language'' = Some (PStr (default_language P)) \<and>
           map_of r ''language_confidence'' = Some (PFloat 0.5) \<and>
           map_of r ''all_languages''
             = Some (PList [PDict [(''language'', PStr (default_language P)),
                                   (''confidence'', PFloat 0.5)]]) \<and>
           map_of r ''error'' = Some (PStr (cp ''Audio buffer is empty or too small''))"
  using assms
  by (auto simp: detect_language_def detect_language_fallback_def language_entry_def)

theorem detect_language_small_buffer_witness:
  "length (replicate 1023 (0 :: 8 word)) < 1024 \<and>
   (\<exists>r. detect_language example_processor example_env example_world (replicate 1023 0)
           (cp ''wav'') None = (Inr r, example_world) \<and>
         map_of r ''detected_language'' = Some (PStr (cp ''sv'')) \<and>
         map_of r ''language_confidence'' = Some (PFloat 0.5) \<and>
         map_of r ''all_languages''
           = Some (PList [PDict [(''language'', PStr (cp ''sv'')), (''confidence'', PFloat 0.5)]]) \<and>
         map_of r ''error'' = Some (PStr (cp ''Audio buffer is empty or too small'')))"
proof -
  have h: "replicate 1023 (0 :: 8 word) = [] \<or> length (replicate 1023 (0 :: 8 word)) < 1024"
    by simp
  have d: "default_language example_processor = cp ''sv''"
    by (simp add: example_processor_def WhisperXProcessor_init_def)
  from detect_language_small_buffer [OF h, of example_processor example_env example_world
      "cp ''wav''" None]
  show ?thesis unfolding d by simp
qed

section \<open>Calls made to the model\<close>

lemma model_calls_create_file [simp]: "model_calls (create_file p W) = model_calls W"
  by (simp add: create_file_def)

lemma model_calls_unlink [simp]: "model_calls (unlink_if_exists p W) = model_calls W"
  by (simp add: unlink_if_exists_def)

lemma calls_after_finally:
  "model_calls (snd (case X of
                       (Inl e, W) \<Rightarrow> (f e, unlink_if_exists p W)
                     | (Inr r, W) \<Rightarrow> (g r, unlink_if_exists p W)))
     = model_calls (snd X)"
  by (auto split: prod.splits sum.splits)

lemma transcribe_body_calls:
  "model_calls (snd (transcribe_body C P E W p buf lang)) =
     model_calls W @ (case preprocess_audio P E p None of
                        Inl e \<Rightarrow> []
                      | Inr a \<Rightarrow> [transcribe_args_for a lang])"
  by (simp add: transcribe_body_def Let_def split: sum.splits prod.splits)

lemma detect_language_body_calls:
  "model_calls (snd (detect_language_body P E W p langs)) =
     model_calls W @ (case preprocess_audio P E p (Some 10) of
                        Inl e \<Rightarrow> []
                      | Inr a \<Rightarrow> [detect_transcribe_args a])"
  by (simp add: detect_language_body_def Let_def split: sum.splits prod.splits)

lemma transcribe_buffer_calls:
  "new_model_calls W (snd (transcribe_buffer C P E W buf fmt target)) =
     (if buf = [] \<or> length buf < 1024 then []
      else case tmp_create E (cp ''.'' @ fmt) of
             Inl e \<Rightarrow> []
           | Inr p \<Rightarrow>
               (case tmp_write E of
                  Some e \<Rightarrow> []
                | None \<Rightarrow>
                    (case preprocess_audio P E p None of
                       Inl e \<Rightarrow> []
                     | Inr a \<Rightarrow>
                         [transcribe_args_for a
                            (case target of None \<Rightarrow> default_language P
                             | Some l \<Rightarrow> if l = [] then default_language P else l)])))"
  unfolding new_model_calls_def transcribe_buffer_def Let_def
  by (simp add: calls_after_finally transcribe_body_calls split: sum.splits option.splits)

lemma detect_language_calls:
  "new_model_calls W (snd (detect_language P E W buf fmt langs)) =
     (if buf = [] \<or> length buf < 1024 then []
      else case tmp_create E (cp ''.'' @ fmt) of
             Inl e \<Rightarrow> []
           | Inr p \<Rightarrow>
               (case tmp_write E of
                  Some e \<Rightarrow> []
                | None \<Rightarrow>
                    (case preprocess_audio P E p (Some 10) of
                       Inl e \<Rightarrow> []
                     | Inr a \<Rightarrow> [detect_transcribe_args a])))"
  unfolding new_model_calls_def detect_language_def Let_def
  by (simp add: calls_after_finally detect_language_body_calls split: sum.splits option.splits)

lemmas example_stt_defs =
  example_processor_def example_env_def example_world_def WhisperXProcessor_init_def

lemma example_preprocess:
  "preprocess_audio example_processor example_env p md = Inr [1, 0, - 1]"
  by (simp add: preprocess_audio_def normalize_audio_def example_stt_defs split: option.splits)

lemma example_env_simps:
  "tmp_create example_env suffix = Inr (cp ''/tmp/tmpb2'' @ suffix)"
  "tmp_write example_env = None"
  "default_language example_processor = cp ''sv''"
  by (simp_all add: example_stt_defs)

section \<open>The failure handler of \<open>transcribe_buffer\<close>\<close>

lemma transcribe_failure_raises:
  "transcribe_failure P E e
     = Inl (Exn AttributeError (cp ''WhisperXProcessor object has no attribute language''))"
  by (simp add: transcribe_failure_def self_language_def)

lemma transcribe_buffer_small_buffer_raises:
  "audio_buffer = [] \<or> length audio_buffer < 1024 \<Longrightarrow>
   transcribe_buffer C P E W audio_buffer audio_format target
     = (Inl (Exn AttributeError (cp ''WhisperXProcessor object has no attribute language'')), W)"
  by (simp add: transcribe_buffer_def transcribe_failure_raises)

text \<open>
  C8 says that \<open>transcribe_buffer\<close> never raises and returns an error dictionary when
  transcription fails. At the empty buffer the validation raises \<open>ValueError\<close>, the
  handler starts to build the dictionary, and reading \<open>self.language\<close> raises
  \<open>AttributeError\<close>, which leaves \<open>transcribe_buffer\<close>: no dictionary is returned.
\<close>

theorem transcribe_buffer_empty_raises:
  "transcribe_buffer ascii_casing example_processor example_env example_world [] (cp ''wav'') None
     = (Inl (Exn AttributeError (cp ''WhisperXProcessor object has no attribute language'')),
        example_world)"
  by (simp add: transcribe_buffer_def transcribe_failure_raises)

section \<open>The language scores of \<open>detect_language\<close>\<close>

text \<open>
  Unless the filtered list has exactly one language and that language differs from the
  reported one, the loop assigns the probability to the reported language and
  \<open>max(0.1, (1 - p) / (n - 1))\<close> to every other one, and the sort arranges the entries
  in non-increasing order of confidence without adding or losing any.
\<close>

lemma all_languages_loop_scores:
  assumes "n \<noteq> 1 \<or> (\<forall>l\<in>set langs. l = detected)"
  shows "all_languages_loop detected p n langs acc =
           Inr (acc @ map (\<lambda>l. (l, if l = detected then p
                                    else max 0.1 ((1 - p) / (real n - 1)))) langs)"
  using assms
proof (induction langs arbitrary: acc)
  case Nil
  then show ?case by simp
next
  case (Cons l langs)
  then show ?case by (auto simp: of_nat_diff)
qed

lemma sort_by_confidence_sorted:
  "sorted (map (\<lambda>e. - snd e) (sort_by_confidence es))"
  by (simp add: sort_by_confidence_def)

lemma sort_by_confidence_mset: "mset (sort_by_confidence es) = mset es"
  by (simp add: sort_by_confidence_def)

lemma sort_by_confidence_descending:
  "i \<le> j \<Longrightarrow> j < length es \<Longrightarrow>
   snd (sort_by_confidence es ! j) \<le> snd (sort_by_confidence es ! i)"
proof -
  assume ij: "i \<le> j" and j: "j < length es"
  have len: "length (sort_by_confidence es) = length es"
    by (simp add: sort_by_confidence_def)
  from sorted_nth_mono [OF sort_by_confidence_sorted [of es], of i j] ij j len
  show ?thesis by simp
qed

lemma detect_language_body_result:
  assumes pre: "preprocess_audio P E p (Some 10) = Inr a"
    and mt: "model_transcribe E (detect_transcribe_args a) = Inr (segs, info)"
    and d0: "d0 = (case language info of Some l \<Rightarrow> l | None \<Rightarrow> default_language P)"
    and det: "det = (if d0 \<notin> set dl then default_language P else d0)"
    and pr: "pr = (if d0 \<notin> set dl then 0.5
                   else (case language_probability info of Some q \<Rightarrow> q | None \<Rightarrow> 0.5))"
    and ok: "length dl \<noteq> 1 \<or> det \<in> set dl"
  shows "\<exists>r W'. detect_language_body P E W p dl = (Inr r, W') \<and>
           map_of r ''detected_language'' = Some (PStr det) \<and>
           map_of r ''language_confidence'' = Some (PFloat pr) \<and>
           map_of r ''all_languages'' =
             Some (PList (map language_entry (sort_by_confidence
               (map (\<lambda>l. (l, if l = det then pr
                              else max 0.1 ((1 - pr) / (real (length dl) - 1)))) dl))))"
proof -
  from ok have "length dl \<noteq> 1 \<or> (\<forall>l\<in>set dl. l = det)"
    by (cases dl) auto
  then have loop: "all_languages_loop det pr (length dl) dl [] =
      Inr (map (\<lambda>l. (l, if l = det then pr
                         else max 0.1 ((1 - pr) / (real (length dl) - 1)))) dl)"
    using all_languages_loop_scores [of "length dl" dl det pr "[]"] by simp
  have body: "detect_language_body P E W p dl =
      (case all_languages_loop det pr (length dl) dl [] of
         Inl e \<Rightarrow> (Inl e, W\<lparr>model_calls := model_calls W @ [detect_transcribe_args a]\<rparr>)
       | Inr all_languages \<Rightarrow>
           (Inr [(''detected_language'', PStr det),
                 (''language_confidence'', PFloat pr),
                 (''all_languages'', PList (map language_entry (sort_by_confidence all_languages))),
                 (''supported_languages'', PList (map PStr dl)),
                 (''detection_duration'', PFloat (clock_end E - clock_start E)),
                 (''audio_duration'', PFloat (real (length a) / real (target_sample_rate P)))],
            W\<lparr>model_calls := model_calls W @ [detect_transcribe_args a]\<rparr>))"
    unfolding det pr d0 using pre mt
    by (simp add: detect_language_body_def Let_def)
  show ?thesis unfolding body loop by simp
qed

lemma example_env_more_simps:
  "model_transcribe example_env a
     = Inr ([\<lparr>seg_text = cp '' hej du'', avg_logprob = Some 0\<rparr>],
            \<lparr>language = Some (cp ''sv''), language_probability = Some 0.9\<rparr>)"
  "clock_start example_env = 10" "clock_end example_env = 12"
  "target_sample_rate example_processor = 16000"
  "model_size example_processor = cp ''base''"
  "map fst (supported_languages example_processor)
     = [cp ''sv'', cp ''en'', cp ''da'', cp ''no'', cp ''fi'', cp ''de'', cp ''fr'', cp ''es'',
        cp ''it'', cp ''nl'']"
  by (simp_all add: example_stt_defs)

text \<open>
  C2 says that after a successful detection \<open>all_languages\<close> has one entry for each
  language of the filtered list. With the filtered list \<open>["en"]\<close> and a model that
  reports Swedish, the reported language is replaced by the default \<open>sv\<close>, the loop
  divides by \<open>len(detection_languages) - 1 = 0\<close>, and the handler returns the fallback
  dictionary: \<open>all_languages\<close> holds the single entry of \<open>sv\<close>, which is not in the
  filtered list, and an \<open>error\<close> field reports the division by zero.
\<close>

theorem detect_language_single_unsupported:
  "\<exists>r W'. detect_language example_processor example_env example_world (replicate 1024 0)
             (cp ''wav'') (Some [cp ''en'']) = (Inr r, W') \<and>
          map_of r ''supported_languages'' = Some (PList [PStr (cp ''en'')]) \<and>
          map_of r ''all_languages''
            = Some (PList [PDict [(''language'', PStr (cp ''sv'')), (''confidence'', PFloat 0.5)]]) \<and>
          map_of r ''error'' = Some (PStr (cp ''float division by zero''))"
  by (simp add: detect_language_def detect_language_body_def detection_languages_of_def
        detect_language_fallback_def language_entry_def example_env_simps example_preprocess
        example_env_more_simps create_file_def unlink_if_exists_def cp_def)

section \<open>The length of the preprocessed audio\<close>

text \<open>
  For a processor built by \<open>__init__\<close> and the two maximum durations in use (the default of
  120 seconds and the 10 seconds of language detection), whenever \<open>_preprocess_audio\<close>
  returns, its result has at most \<open>max_dur * 16000\<close> samples, exactly
  \<open>int(max_dur * 16000)\<close> when the audio was longer, and as many as were loaded when the
  audio was shorter than half a second; and it does return for every non-empty audio
  when scipy can be imported. The filter is assumed to preserve the length of its input.
\<close>

lemma normalize_audio_length:
  assumes "\<And>zs fs. butter_sosfilt E zs = Inr fs \<Longrightarrow> length fs = length zs"
    and "normalize_audio E xs = Inr ys"
  shows "length ys = length xs"
  using assms(2) assms(1)
  by (auto simp: normalize_audio_def Let_def split: if_splits option.splits sum.splits)

lemma normalize_audio_nonempty:
  "xs \<noteq> [] \<Longrightarrow> scipy_import E = None \<Longrightarrow> \<exists>ys. normalize_audio E xs = Inr ys"
  by (auto simp: normalize_audio_def Let_def split: sum.splits)

lemma init_fields:
  "target_sample_rate (WhisperXProcessor_init cuda ms lang dev) = 16000"
  "min_duration (WhisperXProcessor_init cuda ms lang dev) = 0.5"
  "max_duration (WhisperXProcessor_init cuda ms lang dev) = 120"
  "default_language (WhisperXProcessor_init cuda ms lang dev) = lang"
  "model_size (WhisperXProcessor_init cuda ms lang dev) = ms"
  by (simp_all add: WhisperXProcessor_init_def)

lemma preprocess_audio_init:
  assumes "librosa_load E p = Inr xs"
  shows "preprocess_audio (WhisperXProcessor_init cuda ms lang dev) E p md =
     normalize_audio E
       (if real (length xs) / 16000 < 0.5 then xs
        else if real (length xs) / 16000
                  > (case md of None \<Rightarrow> 120 | Some d \<Rightarrow> if d = 0 then 120 else d)
        then py_slice_to
               (py_int ((case md of None \<Rightarrow> 120 | Some d \<Rightarrow> if d = 0 then 120 else d) * 16000))
               xs
        else xs)"
  using assms by (cases md) (simp_all add: preprocess_audio_def init_fields Let_def)

lemma preprocess_audio_length:
  assumes P_def: "P = WhisperXProcessor_init cuda ms lang dev"
    and max_dur_def: "max_dur = (case md of None \<Rightarrow> 120 | Some d \<Rightarrow> d)"
    and load: "librosa_load E p = Inr xs"
    and md: "md = None \<or> md = Some 10"
    and filt: "\<And>zs fs. butter_sosfilt E zs = Inr fs \<Longrightarrow> length fs = length zs"
    and res: "preprocess_audio P E p md = Inr ys"
  shows "real (length ys) \<le> max_dur * 16000"
    and "real (length xs) / 16000 > max_dur \<Longrightarrow> int (length ys) = py_int (max_dur * 16000)"
    and "real (length xs) / 16000 < 0.5 \<Longrightarrow> length ys = length xs"
proof -
  define zs where "zs = (if real (length xs) / 16000 < 0.5 then xs
      else if real (length xs) / 16000 > max_dur
      then py_slice_to (py_int (max_dur * 16000)) xs else xs)"
  have cases_md: "max_dur = 120 \<or> max_dur = 10" using md by (auto simp: max_dur_def)
  have m: "(case md of None \<Rightarrow> 120 | Some d \<Rightarrow> if d = 0 then 120 else d) = max_dur"
    using md by (auto simp: max_dur_def)
  have norm: "normalize_audio E zs = Inr ys"
    using res unfolding P_def preprocess_audio_init [OF load] m zs_def .
  have len: "length ys = length zs" using filt norm by (rule normalize_audio_length)
  have pi: "py_int (120 * 16000) = 1920000" "py_int (10 * 16000) = 160000"
    "py_int 1920000 = 1920000" "py_int 160000 = 160000"
    by (simp_all add: py_int_def)
  show "real (length ys) \<le> max_dur * 16000"
    unfolding len zs_def using cases_md by (auto simp: py_slice_to_def pi)
  show "real (length xs) / 16000 > max_dur \<Longrightarrow> int (length ys) = py_int (max_dur * 16000)"
    unfolding len zs_def using cases_md by (auto simp: py_slice_to_def pi)
  show "real (length xs) / 16000 < 0.5 \<Longrightarrow> length ys = length xs"
    unfolding len zs_def by simp
qed

lemma preprocess_audio_returns:
  assumes load: "librosa_load E p = Inr xs" and ne: "xs \<noteq> []"
    and md: "md = None \<or> md = Some 10" and imp: "scipy_import E = None"
  shows "\<exists>ys. preprocess_audio (WhisperXProcessor_init cuda ms lang dev) E p md = Inr ys"
proof -
  have pi: "py_int (120 * 16000) = 1920000" "py_int (10 * 16000) = 160000"
    "py_int 1920000 = 1920000" "py_int 160000 = 160000"
    by (simp_all add: py_int_def)
  have "py_slice_to (py_int (120 * 16000)) xs \<noteq> []" "py_slice_to (py_int (10 * 16000)) xs \<noteq> []"
    using ne by (simp_all add: pi py_slice_to_def)
  then show ?thesis
    unfolding preprocess_audio_init [OF load]
    using md ne imp by (auto intro!: normalize_audio_nonempty)
qed

text \<open>
  C5 says that audio shorter than the minimum of half a second is still processed and
  that no error is raised. For an audio file that decodes to no samples at all, the
  duration check only warns, but \<open>np.max\<close> in \<open>_normalize_audio\<close> raises \<open>ValueError\<close> on
  the empty array, and \<open>_preprocess_audio\<close> re-raises it.
\<close>

theorem preprocess_audio_empty_raises:
  "preprocess_audio example_processor (example_env\<lparr>librosa_load := \<lambda>p. Inr []\<rparr>)
     (cp ''/tmp/tmpb2.wav'') None
   = Inl (Exn ValueError
       (cp ''zero-size array to reduction operation maximum which has no identity''))"
  by (simp add: preprocess_audio_def normalize_audio_def example_stt_defs)

section \<open>Temporary files\<close>

text \<open>
  Once the temporary file has been created and written, \<open>detect_language\<close> and
  \<open>transcribe_buffer\<close> remove it on every path, and so do the piper and espeak
  synthesis methods.
\<close>

lemma files_create_file [simp]: "files (create_file p W) = insert p (files W)"
  by (simp add: create_file_def)

lemma files_unlink [simp]: "files (unlink_if_exists p W) = files W - {p}"
  by (auto simp: unlink_if_exists_def)

lemma detect_language_body_files: "files (snd (detect_language_body P E W p dl)) = files W"
  by (simp add: detect_language_body_def Let_def split: sum.splits prod.splits)

lemma transcribe_body_files: "files (snd (transcribe_body C P E W p buf lang)) = files W"
  by (simp add: transcribe_body_def Let_def split: sum.splits prod.splits)

lemma files_after_finally:
  "files (snd (case X of
                 (Inl e, W) \<Rightarrow> (f e, unlink_if_exists p W)
               | (Inr r, W) \<Rightarrow> (g r, unlink_if_exists p W)))
     = files (snd X) - {p}"
  by (auto split: prod.splits sum.splits)

lemma detect_language_temp_removed:
  assumes "\<not> (buf = [] \<or> length buf < 1024)"
    and "tmp_create E (cp ''.'' @ fmt) = Inr p" and "tmp_write E = None"
  shows "files (snd (detect_language P E W buf fmt langs)) = files W - {p}"
  using assms
  by (simp add: detect_language_def Let_def files_after_finally detect_language_body_files)

lemma transcribe_buffer_temp_removed:
  assumes "\<not> (buf = [] \<or> length buf < 1024)"
    and "tmp_create E (cp ''.'' @ fmt) = Inr p" and "tmp_write E = None"
  shows "files (snd (transcribe_buffer C P E W buf fmt target)) = files W - {p}"
  using assms
  by (simp add: transcribe_buffer_def Let_def files_after_finally transcribe_body_files)

lemma synthesize_with_piper_temp_removed:
  "tts_tmp_create E (cp ''.'' @ fmt) = Inr p \<Longrightarrow>
   snd (synthesize_with_piper E fs text fmt) = fs - {p}"
  by (simp add: synthesize_with_piper_def Let_def remove_if_exists_def)

lemma synthesize_with_espeak_temp_removed:
  "tts_tmp_create E (cp ''.'' @ fmt) = Inr p \<Longrightarrow>
   snd (synthesize_with_espeak E fs text fmt) = fs - {p}"
  by (simp add: synthesize_with_espeak_def Let_def remove_if_exists_def)

text \<open>
  C7 says that every temporary file is deleted before the operation returns, on every
  error path. When writing the buffer to the temporary file fails (the disk is full),
  the file already exists, the inner \<open>try\<close> with its \<open>finally\<close> has not been entered, and
  \<open>detect_language\<close> returns its fallback dictionary while the file is still there.
\<close>

theorem detect_language_write_failure_leaves_file:
  "cp ''/tmp/tmpb2.wav'' \<notin> files example_world \<and>
   (\<exists>r W'. detect_language example_processor
              (example_env\<lparr>tmp_write := Some (Exn OtherException (cp ''No space left on device''))\<rparr>)
              example_world (replicate 1024 0) (cp ''wav'') None = (Inr r, W') \<and>
            cp ''/tmp/tmpb2.wav'' \<in> files W')"
  by (simp add: detect_language_def example_env_def example_world_def cp_def)

text \<open>
  The system provider has a second such path: when ffmpeg times out after it has created
  the converted file, the bare \<open>except\<close> falls back to the original file and the
  converted one is never removed.
\<close>

lemma synthesize_with_system_leaves_wav:
  "snd (synthesize_with_system
          ((example_tts_env (Completed 0 []) (Completed 0 []) (Completed 0 []))
             \<lparr>ffmpeg_run := \<lambda>src dst. Raised (Exn TimeoutExpired (cp ''ffmpeg''))\<rparr>)
          {} (cp ''Hej.'') (cp ''wav''))
   = {cp ''/tmp/tmpa1.wav''}"
  by (simp add: synthesize_with_system_def example_tts_env_def read_file_def
        remove_if_exists_def py_replace.simps cp_def Let_def insert_Diff_if)

section \<open>Properties of float rounding\<close>

lemma round_half_even_nonneg: "0 \<le> y \<Longrightarrow> 0 \<le> round_half_even y"
  by (auto simp: round_half_even_def Let_def)

lemma round_half_even_le: "y \<le> of_int N \<Longrightarrow> round_half_even y \<le> N"
proof -
  assume le: "y \<le> of_int N"
  then have f: "\<lfloor>y\<rfloor> \<le> N" by (simp add: floor_le_iff)
  show ?thesis
  proof (cases "\<lfloor>y\<rfloor> = N")
    case True
    then have "of_int N \<le> y" by (metis of_int_floor_le)
    with le have "y = of_int N" by simp
    then show ?thesis by (simp add: round_half_even_def)
  next
    case False
    with f have "\<lfloor>y\<rfloor> + 1 \<le> N" by simp
    then show ?thesis using f by (auto simp: round_half_even_def Let_def)
  qed
qed

lemma float_round_nonneg: "0 \<le> x \<Longrightarrow> 0 \<le> float_round x"
  by (simp add: float_round_def round_half_even_nonneg)

lemma float_mul_nonneg: "0 \<le> a \<Longrightarrow> 0 \<le> b \<Longrightarrow> 0 \<le> float_mul a b"
  by (simp add: float_mul_def float_round_nonneg)

lemma float_round_le_pow2:
  assumes "0 < x" and "x \<le> 2 ^ k"
  shows "float_round x \<le> 2 ^ k"
proof -
  define u where "u = ulp_exponent x"
  have "log 2 x \<le> real k" using assms by (simp add: log_le_iff powr_realpow)
  then have "\<lfloor>log 2 \<bar>x\<bar>\<rfloor> \<le> int k" using assms(1) by (simp add: floor_le_iff)
  then have uk: "u \<le> int k" by (simp add: u_def ulp_exponent_def)
  define d where "d = nat (int k - u)"
  have d: "int k = u + int d" using uk by (simp add: d_def)
  have pw: "(2::real) ^ k = 2 ^ d * 2 powr of_int u"
  proof -
    have "(2::real) ^ k = 2 powr of_int (int k)" by (simp add: powr_realpow)
    also have "\<dots> = 2 powr (of_int u + real d)" by (simp add: d)
    also have "\<dots> = 2 powr of_int u * 2 ^ d" by (simp add: powr_add powr_realpow)
    finally show ?thesis by simp
  qed
  have pos: "0 < (2::real) powr of_int u" by simp
  have "x / 2 powr of_int u \<le> 2 ^ d"
    using assms(2) pos unfolding pw by (simp add: field_simps)
  then have "x / 2 powr of_int u \<le> of_int (2 ^ d)" by simp
  then have "round_half_even (x / 2 powr of_int u) \<le> 2 ^ d" by (rule round_half_even_le)
  then have "real_of_int (round_half_even (x / 2 powr of_int u)) \<le> 2 ^ d"
    by (metis of_int_le_iff of_int_numeral of_int_power)
  then have "real_of_int (round_half_even (x / 2 powr of_int u)) * 2 powr of_int u
               \<le> 2 ^ d * 2 powr of_int u"
    using pos by (simp add: mult_right_mono)
  then show ?thesis using assms(1) unfolding pw by (simp add: float_round_def u_def)
qed

lemma float_of_int_ok:
  assumes "0 \<le> n" and "n \<le> 2 ^ 1023"
  shows "float_of_int n = Inr (float_round (of_int n))"
proof (cases "n = 0")
  case True
  then show ?thesis by (simp add: float_of_int_def float_round_def)
next
  case False
  with assms have pos: "0 < real_of_int n" by simp
  have "real_of_int n \<le> 2 ^ 1023" using assms(2) by (metis of_int_le_iff of_int_numeral of_int_power)
  with pos have "float_round (of_int n) \<le> 2 ^ 1023" by (rule float_round_le_pow2)
  moreover have "0 \<le> float_round (of_int n)" using pos by (simp add: float_round_nonneg)
  ultimately have "\<bar>float_round (of_int n)\<bar> < 2 ^ 1024" by simp
  then show ?thesis by (simp add: float_of_int_def)
qed

lemma ulp_exponent_eq:
  assumes "x \<noteq> 0" and "2 powr of_int (u + 52) \<le> \<bar>x\<bar>" and "\<bar>x\<bar> < 2 powr of_int (u + 53)"
    and "- 1074 \<le> u"
  shows "ulp_exponent x = u"
proof -
  have "\<lfloor>log 2 \<bar>x\<bar>\<rfloor> = u + 52"
    using assms by (subst floor_log_eq_powr_iff) (simp_all add: add.commute)
  then show ?thesis using assms(4) by (simp add: ulp_exponent_def)
qed

lemma float_round_down:
  assumes "x \<noteq> 0" and "2 ^ 52 \<le> \<bar>x\<bar> * 2 ^ n" and "\<bar>x\<bar> * 2 ^ n < 2 ^ 53" and "n \<le> 1074"
  shows "float_round x = of_int (round_half_even (x * 2 ^ n)) / 2 ^ n"
proof -
  have p: "(2::real) powr (- real n) = 1 / 2 ^ n"
    by (simp add: powr_minus powr_realpow inverse_eq_divide)
  have a: "(2::real) powr of_int (- int n + 52) = 2 ^ 52 / 2 ^ n"
    by (simp add: powr_diff powr_realpow)
  have b: "(2::real) powr of_int (- int n + 53) = 2 ^ 53 / 2 ^ n"
    by (simp add: powr_diff powr_realpow)
  have "ulp_exponent x = - int n"
  proof (rule ulp_exponent_eq [OF assms(1)])
    show "2 powr of_int (- int n + 52) \<le> \<bar>x\<bar>"
      unfolding a using assms(2) by (simp add: field_simps)
    show "\<bar>x\<bar> < 2 powr of_int (- int n + 53)"
      unfolding b using assms(3) by (simp add: field_simps)
    show "- 1074 \<le> - int n" using assms(4) by simp
  qed
  then show ?thesis using assms(1) by (simp add: float_round_def p)
qed

lemma float_round_up:
  assumes "x \<noteq> 0" and "2 ^ 52 \<le> \<bar>x\<bar> / 2 ^ n" and "\<bar>x\<bar> / 2 ^ n < 2 ^ 53"
  shows "float_round x = of_int (round_half_even (x / 2 ^ n)) * 2 ^ n"
proof -
  have p: "(2::real) powr real n = 2 ^ n" by (simp add: powr_realpow)
  have a: "(2::real) powr of_int (int n + 52) = 2 ^ 52 * 2 ^ n"
    by (simp add: powr_add powr_realpow)
  have b: "(2::real) powr of_int (int n + 53) = 2 ^ 53 * 2 ^ n"
    by (simp add: powr_add powr_realpow)
  have "ulp_exponent x = int n"
  proof (rule ulp_exponent_eq [OF assms(1)])
    show "2 powr of_int (int n + 52) \<le> \<bar>x\<bar>"
      unfolding a using assms(2) by (simp add: field_simps)
    show "\<bar>x\<bar> < 2 powr of_int (int n + 53)"
      unfolding b using assms(3) by (simp add: field_simps)
    show "- 1074 \<le> int n" by simp
  qed
  then show ?thesis using assms(1) by (simp add: float_round_def p)
qed

text \<open>The doubles of the literals and of some operations, computed from the definition.\<close>

lemma float_literals:
  "float_round (3 / 10) = 5404319552844595 / 18014398509481984"
  "float_round (7 / 10) = 3152519739159347 / 4503599627370496"
  "float_round (11 / 10) = 2476979795053773 / 2251799813685248"
  "float_round (1 / 50) = 5764607523034235 / 288230376151711744"
  "float_round 4 = 4"
  "float_round 5 = 5"
  by (subst float_round_down [where n = 54], simp_all add: round_half_even_def,
      subst float_round_down [where n = 53], simp_all add: round_half_even_def,
      subst float_round_down [where n = 52], simp_all add: round_half_even_def,
      subst float_round_down [where n = 58], simp_all add: round_half_even_def,
      subst float_round_down [where n = 50], simp_all add: round_half_even_def,
      subst float_round_down [where n = 50], simp_all add: round_half_even_def)

lemma float_steps:
  "float_mul 5 (5404319552844595 / 18014398509481984) = 3 / 2"
  "float_mul (1 / 2) (2476979795053773 / 2251799813685248)
     = 2476979795053773 / 4503599627370496"
  "float_mul 4 (5764607523034235 / 288230376151711744)
     = 5764607523034235 / 72057594037927936"
  "float_add 1 (5764607523034235 / 72057594037927936) = 607985949695017 / 562949953421312"
  "float_mul (2476979795053773 / 4503599627370496) (607985949695017 / 562949953421312)
     = 2675138178658075 / 4503599627370496"
  unfolding float_mul_def float_add_def
  by (subst float_round_down [where n = 52], simp_all add: round_half_even_def,
      subst float_round_down [where n = 53], simp_all add: round_half_even_def,
      subst float_round_down [where n = 56], simp_all add: round_half_even_def,
      subst float_round_down [where n = 52], simp_all add: round_half_even_def,
      subst float_round_down [where n = 53], simp_all add: round_half_even_def)

lemma float_round_2_1024:
  "float_round 179769313486231590772930519078902473361797697894230657273430081157732675805500963132708477322407536021120113879871393357658789768814416622492847430639474124377767893424865485276302219601246094119453082952085005768838150682342462881473913110540827237163350510684586298239947245938479716304835356329624224137216
   = 2 ^ 1024"
  by (subst float_round_up [where n = 972]) (simp_all add: round_half_even_def)

lemma float_of_int_5: "float_of_int 5 = Inr 5"
  by (simp add: float_of_int_def float_literals)

lemma float_of_int_2_1024:
  "float_of_int (2 ^ 1024) = Inl (Exn OverflowError (cp ''int too large to convert to float''))"
  by (simp add: float_of_int_def float_round_2_1024)

section \<open>Properties of \<open>_assess_transcription_quality\<close>\<close>

text \<open>
  C3, the claim as stated: a value in \<open>[0, 1]\<close> is returned for every non-negative audio
  size. For the audio size \<open>10000 * 2 ^ 1024\<close> the expected word count is \<open>2 ^ 1024\<close>, and
  \<open>expected_words * 0.3\<close> raises \<open>OverflowError\<close> when it converts that integer to a
  float: no value is returned.
\<close>

theorem assess_transcription_quality_overflow:
  "(0::real) \<le> 0.5 \<and> (0.5::real) \<le> 1 \<and> (0::int) \<le> 10000 * 2 ^ 1024 \<and>
   assess_transcription_quality ascii_casing (cp ''hej'') 0.5 (10000 * 2 ^ 1024)
     = Inl (Exn OverflowError (cp ''int too large to convert to float''))"
proof -
  have d: "max 1 ((10000 * 2 ^ 1024) div 10000) = (2 ^ 1024 :: int)" by simp
  have n: "cp ''hej'' \<noteq> []" by (simp add: cp_def)
  have "assess_transcription_quality ascii_casing (cp ''hej'') 0.5 (10000 * 2 ^ 1024)
     = Inl (Exn OverflowError (cp ''int too large to convert to float''))"
    unfolding assess_transcription_quality_def Let_def d float_of_int_2_1024 using n by simp
  then show ?thesis by simp
qed

text \<open>
  C3, as amended: for every text, every confidence in \<open>[0, 1]\<close> and every audio size
  from \<open>0\<close> to \<open>2 ^ 1023\<close> (which covers the length of every buffer),
  \<open>_assess_transcription_quality\<close> returns a value in \<open>[0, 1]\<close>: \<open>0\<close> for the empty text,
  and otherwise the confidence multiplied, in float arithmetic and in this order, by
  \<open>0.7\<close> when the word count is below the float product of
  \<open>max(1, audio_size // 10000)\<close> and \<open>0.3\<close>, by \<open>1.1\<close> when the word count is between 5
  and 100, and by \<open>1.0 + count * 0.02\<close> when \<open>count\<close>, the number of Swedish indicators
  that occur in the lowercased text, is positive; the result is capped at \<open>1\<close>.
\<close>

theorem assess_transcription_quality_spec:
  assumes "0 \<le> confidence" and "confidence \<le> 1"
    and "0 \<le> audio_size" and "audio_size \<le> 2 ^ 1023"
  shows "\<exists>q. assess_transcription_quality C text confidence audio_size = Inr q \<and>
           0 \<le> q \<and> q \<le> 1 \<and>
           (text = [] \<longrightarrow> q = 0) \<and>
           (text \<noteq> [] \<longrightarrow>
              q = min 1
                    (scaled_when
                       (0 < length (filter (\<lambda>word. py_in word (str_lower C text))
                                      swedish_indicators))
                       (scaled_when
                          (5 \<le> length (py_split text) \<and> length (py_split text) \<le> 100)
                          (scaled_when
                             (real (length (py_split text))
                                < float_mul (float_round (of_int (max 1 (audio_size div 10000))))
                                    (float_round 0.3))
                             confidence (float_round 0.7))
                          (float_round 1.1))
                       (float_add 1
                          (float_mul
                             (float_round (real (length (filter
                                (\<lambda>word. py_in word (str_lower C text)) swedish_indicators))))
                             (float_round 0.02)))))"
proof (cases "text = []")
  case True
  then show ?thesis by (simp add: assess_transcription_quality_def)
next
  case False
  define k where "k = length (filter (\<lambda>word. py_in word (str_lower C text)) swedish_indicators)"
  define expected where "expected = float_round (of_int (max 1 (audio_size div 10000)))"
  define q1 where "q1 = scaled_when (real (length (py_split text))
                           < float_mul expected (float_round 0.3)) confidence (float_round 0.7)"
  define q2 where "q2 = scaled_when (5 \<le> length (py_split text) \<and> length (py_split text) \<le> 100)
                           q1 (float_round 1.1)"
  define f where "f = float_add 1 (float_mul (float_round (real k)) (float_round 0.02))"
  define q3 where "q3 = scaled_when (0 < k) q2 f"
  have "audio_size div 10000 \<le> audio_size"
    using zdiv_mono2 [of audio_size 1 10000] assms(3) by simp
  then have "0 \<le> max 1 (audio_size div 10000)" "max 1 (audio_size div 10000) \<le> 2 ^ 1023"
    using assms(4) by simp_all
  then have conv: "float_of_int (max 1 (audio_size div 10000)) = Inr expected"
    unfolding expected_def by (rule float_of_int_ok)
  have eq: "assess_transcription_quality C text confidence audio_size = Inr (min 1 q3)"
    using False conv
    by (simp add: assess_transcription_quality_def Let_def scaled_when_def q3_def q2_def q1_def
          f_def k_def)
  have n1: "0 \<le> q1"
    using assms(1) by (simp add: q1_def scaled_when_def float_mul_nonneg float_round_nonneg)
  have n2: "0 \<le> q2"
    using n1 by (simp add: q2_def scaled_when_def float_mul_nonneg float_round_nonneg)
  have nf: "0 \<le> f"
    by (simp add: f_def float_add_def float_round_nonneg float_mul_nonneg)
  have n3: "0 \<le> q3"
    using n2 nf by (simp add: q3_def scaled_when_def float_mul_nonneg)
  show ?thesis
    unfolding eq using False n3
    by (simp add: q3_def q2_def q1_def f_def k_def expected_def)
qed

text \<open>
  On the text \<open>jag tycker om det och en\<close> with confidence \<open>0.5\<close> and 50000 bytes of audio
  the score is the double \<open>0.5940000000000001\<close>.
\<close>

lemma example_quality:
  "assess_transcription_quality ascii_casing (cp ''jag tycker om det och en'') (1 / 2) 50000
     = Inr (2675138178658075 / 4503599627370496)"
proof -
  have w: "length (py_split (cp ''jag tycker om det och en'')) = 6"
    by (simp add: cp_def py_split.simps isspace_def)
  have k: "length (filter (\<lambda>word. py_in word (str_lower ascii_casing (cp ''jag tycker om det och en'')))
             swedish_indicators) = 4"
    by (simp add: cp_def swedish_indicators_def ascii_casing_def)
  have n: "cp ''jag tycker om det och en'' \<noteq> []" by (simp add: cp_def)
  have d: "max 1 (50000 div 10000) = (5::int)" by simp
  show ?thesis
    unfolding assess_transcription_quality_def Let_def w k d float_of_int_5
    using n by (simp add: float_literals float_steps)
qed

theorem assess_transcription_quality_spec_witness:
  "(0::real) \<le> 1 / 2 \<and> (1 / 2 :: real) \<le> 1 \<and> (0::int) \<le> 50000 \<and> (50000::int) \<le> 2 ^ 1023 \<and>
   cp ''jag tycker om det och en'' \<noteq> [] \<and>
   assess_transcription_quality ascii_casing (cp ''jag tycker om det och en'') (1 / 2) 50000
     = Inr (2675138178658075 / 4503599627370496) \<and>
   (\<exists>q. assess_transcription_quality ascii_casing (cp ''jag tycker om det och en'') (1 / 2) 50000
          = Inr q \<and> 0 \<le> q \<and> q \<le> 1)"
proof -
  have h: "(0::real) \<le> 1 / 2" "(1 / 2 :: real) \<le> 1" "(0::int) \<le> 50000" "(50000::int) \<le> 2 ^ 1023"
    by simp_all
  have n: "cp ''jag tycker om det och en'' \<noteq> []" by (simp add: cp_def)
  from assess_transcription_quality_spec [OF h, of ascii_casing "cp ''jag tycker om det och en''"]
  have r: "\<exists>q. assess_transcription_quality ascii_casing (cp ''jag tycker om det och en'') (1 / 2) 50000
          = Inr q \<and> 0 \<le> q \<and> q \<le> 1"
    by blast
  show ?thesis by (intro conjI h n example_quality r)
qed

section \<open>Voice activity detection\<close>

lemma py_slice_to_take:
  "py_slice_to k xs = take (if 0 \<le> k then min (nat k) (length xs) else length xs - nat (- k)) xs"
  by (auto simp: py_slice_to_def min_def)

lemma normalize_audio_rescaled:
  assumes "normalize_audio E ys = Inr a"
  shows "a = (case butter_sosfilt E (rescaled ys) of Inl e \<Rightarrow> rescaled ys | Inr filtered \<Rightarrow> filtered)"
proof -
  define mean where "mean = sum_list ys / real (length ys)"
  have m: "map abs (map (\<lambda>x. x - mean) ys) = map (\<lambda>x. \<bar>x - mean\<bar>) ys" by simp
  have r: "rescaled ys =
      (if Max (set (map abs (map (\<lambda>x. x - mean) ys))) > 0
       then map (\<lambda>x. x / Max (set (map abs (map (\<lambda>x. x - mean) ys)))) (map (\<lambda>x. x - mean) ys)
       else map (\<lambda>x. x - mean) ys)"
    unfolding m by (simp add: rescaled_def Let_def mean_def)
  show ?thesis
    using assms unfolding r
    by (auto simp: normalize_audio_def Let_def mean_def split: if_splits option.splits sum.splits)
qed

lemma preprocess_audio_prepared:
  assumes "preprocess_audio P E p md = Inr a"
  shows "\<exists>xs. librosa_load E p = Inr xs \<and> a = prepared_audio P E md xs"
proof -
  from assms obtain xs where load: "librosa_load E p = Inr xs"
    by (auto simp: preprocess_audio_def split: sum.splits)
  from assms load have sr: "target_sample_rate P \<noteq> 0"
    by (auto simp: preprocess_audio_def Let_def split: if_splits)
  define max_dur where "max_dur = (case md of None \<Rightarrow> max_duration P
                                   | Some d \<Rightarrow> if d = 0 then max_duration P else d)"
  define ys where "ys = (if real (length xs) / real (target_sample_rate P) < min_duration P then xs
      else if real (length xs) / real (target_sample_rate P) > max_dur
      then py_slice_to (py_int (max_dur * real (target_sample_rate P))) xs else xs)"
  have norm: "normalize_audio E ys = Inr a"
    using assms load sr
    by (cases md) (auto simp: preprocess_audio_def Let_def ys_def max_dur_def split: if_splits)
  have ys: "ys = take (kept_samples P md (length xs)) xs"
    by (simp add: ys_def kept_samples_def Let_def max_dur_def py_slice_to_take)
  have "a = prepared_audio P E md xs"
    using normalize_audio_rescaled [OF norm] unfolding ys prepared_audio_def Let_def .
  with load show ?thesis by blast
qed

lemma segments_loop_text:
  "fst (segments_loop segs (t, c, n)) = t @ concat (map seg_text segs)"
  by (induction segs arbitrary: t c n) (auto split: option.splits)

lemma transcribe_body_text:
  assumes "transcribe_body C P E W p buf lang = (Inr r, W')"
  shows "\<exists>a segs info. preprocess_audio P E p None = Inr a \<and>
           model_transcribe E (transcribe_args_for a lang) = Inr (segs, info) \<and>
           map_of r ''text'' = Some (PStr (clean_transcription C (concat (map seg_text segs))))"
proof -
  from assms obtain a where pre: "preprocess_audio P E p None = Inr a"
    by (auto simp: transcribe_body_def split: sum.splits)
  from assms pre obtain segs info where
    mt: "model_transcribe E (transcribe_args_for a lang) = Inr (segs, info)"
    by (auto simp: transcribe_body_def Let_def split: sum.splits)
  obtain t c n where sl: "segments_loop segs ([], 0, 0) = (t, c, n)"
    by (cases "segments_loop segs ([], 0, 0)") auto
  have t: "t = concat (map seg_text segs)"
    using segments_loop_text [of segs "[]" 0 0] sl by simp
  have "map_of r ''text'' = Some (PStr (clean_transcription C t))"
    using assms pre mt sl
    by (auto simp: transcribe_body_def Let_def split: sum.splits option.splits prod.splits)
  with pre mt t show ?thesis by blast
qed

lemma transcribe_buffer_success:
  assumes "transcribe_buffer C P E W buf fmt target = (Inr r, W')"
  shows "\<exists>p W''. \<not> (buf = [] \<or> length buf < 1024) \<and>
           tmp_create E (cp ''.'' @ fmt) = Inr p \<and> tmp_write E = None \<and>
           transcribe_body C P E (create_file p W) p buf
             (case target of None \<Rightarrow> default_language P
              | Some l \<Rightarrow> if l = [] then default_language P else l) = (Inr r, W'')"
  using assms
  by (auto simp: transcribe_buffer_def Let_def transcribe_failure_raises
        split: if_splits sum.splits option.splits prod.splits)

text \<open>
  C6: voice activity detection occurs only as flags of the model call. Every call of the
  model that \<open>transcribe_buffer\<close> and \<open>detect_language\<close> make passes \<open>vad_filter=True\<close>
  with \<open>min_silence_duration_ms=500\<close> and \<open>min_speech_duration_ms=250\<close>. The processors
  themselves detect no speech: the audio of the call is the result of
  \<open>_preprocess_audio\<close>, which is the leading part of the loaded samples, of a length
  fixed by their number alone, rescaled and filtered; and the text of a successful
  transcription is the cleaned concatenation of all segments the model returned, none
  dropped.
\<close>

theorem vad_only_as_model_flags:
  "(\<forall>a\<in>set (new_model_calls W (snd (transcribe_buffer C P E W buf fmt target))).
      vad_filter a \<and>
      vad_parameters a = [(''min_silence_duration_ms'', 500), (''min_speech_duration_ms'', 250)] \<and>
      (\<exists>p. tmp_create E (cp ''.'' @ fmt) = Inr p \<and> preprocess_audio P E p None = Inr (audio a)) \<and>
      (\<exists>p xs. tmp_create E (cp ''.'' @ fmt) = Inr p \<and> librosa_load E p = Inr xs \<and>
              audio a = prepared_audio P E None xs)) \<and>
   (\<forall>a\<in>set (new_model_calls W (snd (detect_language P E W buf fmt langs))).
      vad_filter a \<and>
      vad_parameters a = [(''min_silence_duration_ms'', 500), (''min_speech_duration_ms'', 250)] \<and>
      (\<exists>p. tmp_create E (cp ''.'' @ fmt) = Inr p \<and>
           preprocess_audio P E p (Some 10) = Inr (audio a)) \<and>
      (\<exists>p xs. tmp_create E (cp ''.'' @ fmt) = Inr p \<and> librosa_load E p = Inr xs \<and>
              audio a = prepared_audio P E (Some 10) xs)) \<and>
   (\<forall>r W'. transcribe_buffer C P E W buf fmt target = (Inr r, W') \<longrightarrow>
      (\<exists>a segs info. new_model_calls W W' = [a] \<and> model_transcribe E a = Inr (segs, info) \<and>
         map_of r ''text''
           = Some (PStr (clean_transcription C (concat (map seg_text segs))))))"
proof (intro conjI ballI allI impI)
  fix a
  assume "a \<in> set (new_model_calls W (snd (transcribe_buffer C P E W buf fmt target)))"
  then obtain p ys lang where p: "tmp_create E (cp ''.'' @ fmt) = Inr p"
    and pre: "preprocess_audio P E p None = Inr ys" and a: "a = transcribe_args_for ys lang"
    unfolding transcribe_buffer_calls
    by (auto split: sum.splits option.splits if_splits)
  from a show "vad_filter a" by (simp add: transcribe_args_for_def)
  from a show "vad_parameters a
      = [(''min_silence_duration_ms'', 500), (''min_speech_duration_ms'', 250)]"
    by (simp add: transcribe_args_for_def)
  from a have au: "audio a = ys" by (simp add: transcribe_args_for_def)
  from p pre au
  show "\<exists>p. tmp_create E (cp ''.'' @ fmt) = Inr p \<and> preprocess_audio P E p None = Inr (audio a)"
    by auto
  from preprocess_audio_prepared [OF pre] p au
  show "\<exists>p xs. tmp_create E (cp ''.'' @ fmt) = Inr p \<and> librosa_load E p = Inr xs \<and>
              audio a = prepared_audio P E None xs"
    by auto
next
  fix a
  assume "a \<in> set (new_model_calls W (snd (detect_language P E W buf fmt langs)))"
  then obtain p ys where p: "tmp_create E (cp ''.'' @ fmt) = Inr p"
    and pre: "preprocess_audio P E p (Some 10) = Inr ys" and a: "a = detect_transcribe_args ys"
    unfolding detect_language_calls
    by (auto split: sum.splits option.splits if_splits)
  from a show "vad_filter a" by (simp add: detect_transcribe_args_def)
  from a show "vad_parameters a
      = [(''min_silence_duration_ms'', 500), (''min_speech_duration_ms'', 250)]"
    by (simp add: detect_transcribe_args_def)
  from a have au: "audio a = ys" by (simp add: detect_transcribe_args_def)
  from p pre au
  show "\<exists>p. tmp_create E (cp ''.'' @ fmt) = Inr p \<and>
           preprocess_audio P E p (Some 10) = Inr (audio a)"
    by auto
  from preprocess_audio_prepared [OF pre] p au
  show "\<exists>p xs. tmp_create E (cp ''.'' @ fmt) = Inr p \<and> librosa_load E p = Inr xs \<and>
              audio a = prepared_audio P E (Some 10) xs"
    by auto
next
  fix r W'
  assume ok: "transcribe_buffer C P E W buf fmt target = (Inr r, W')"
  define lang where "lang = (case target of None \<Rightarrow> default_language P
                             | Some l \<Rightarrow> if l = [] then default_language P else l)"
  from transcribe_buffer_success [OF ok] obtain p W'' where
    buf: "\<not> (buf = [] \<or> length buf < 1024)" and p: "tmp_create E (cp ''.'' @ fmt) = Inr p"
    and w: "tmp_write E = None"
    and body: "transcribe_body C P E (create_file p W) p buf lang = (Inr r, W'')"
    unfolding lang_def by blast
  from transcribe_body_text [OF body] obtain a segs info where
    pre: "preprocess_audio P E p None = Inr a"
    and mt: "model_transcribe E (transcribe_args_for a lang) = Inr (segs, info)"
    and tx: "map_of r ''text'' = Some (PStr (clean_transcription C (concat (map seg_text segs))))"
    by blast
  have "new_model_calls W (snd (transcribe_buffer C P E W buf fmt target))
          = [transcribe_args_for a lang]"
    unfolding transcribe_buffer_calls using buf p w pre by (simp add: lang_def)
  then have "new_model_calls W W' = [transcribe_args_for a lang]" using ok by simp
  with mt tx
  show "\<exists>a segs info. new_model_calls W W' = [a] \<and> model_transcribe E a = Inr (segs, info) \<and>
         map_of r ''text'' = Some (PStr (clean_transcription C (concat (map seg_text segs))))"
    by blast
qed

lemma float_one_steps:
  "float_of_int 1 = Inr 1"
  "float_mul 1 (5404319552844595 / 18014398509481984) = 5404319552844595 / 18014398509481984"
proof -
  have "float_round 1 = 1"
    by (subst float_round_down [where n = 52]) (simp_all add: round_half_even_def)
  then show "float_of_int 1 = Inr 1" by (simp add: float_of_int_def)
  show "float_mul 1 (5404319552844595 / 18014398509481984)
          = 5404319552844595 / 18014398509481984"
    unfolding float_mul_def
    by (subst float_round_down [where n = 54]) (simp_all add: round_half_even_def)
qed

lemma example_prepared_audio:
  "prepared_audio example_processor example_env md [1, 0, - 1] = [1, 0, - 1]"
  by (cases md)
     (simp_all add: prepared_audio_def kept_samples_def rescaled_def Let_def example_stt_defs)

lemma example_transcription:
  "\<exists>r. transcribe_buffer ascii_casing example_processor example_env example_world
          (replicate 1024 0) (cp ''wav'') None
        = (Inr r, example_world\<lparr>model_calls := [transcribe_args_for [1, 0, - 1] (cp ''sv'')]\<rparr>) \<and>
       map_of r ''text'' = Some (PStr (cp ''Hej du.'')) \<and>
       map_of r ''quality_score'' = Some (PFloat 1)"
proof -
  have c: "clean_transcription ascii_casing (cp '' hej du'') = cp ''Hej du.''"
    by (simp add: clean_transcription_def cp_def py_split.simps isspace_def py_strip_def
          ascii_casing_def)
  have w: "length (py_split (cp ''Hej du.'')) = 2"
    by (simp add: cp_def py_split.simps isspace_def)
  have k: "filter (\<lambda>word. py_in word (str_lower ascii_casing (cp ''Hej du.''))) swedish_indicators = []"
    by (simp add: cp_def swedish_indicators_def ascii_casing_def)
  have n: "cp ''Hej du.'' \<noteq> []" by (simp add: cp_def)
  have q: "assess_transcription_quality ascii_casing (cp ''Hej du.'') 1 1024 = Inr 1"
    unfolding assess_transcription_quality_def Let_def w k
    using n by (simp add: float_one_steps float_literals)
  show ?thesis
    by (simp add: transcribe_buffer_def transcribe_body_def example_env_simps
          example_env_more_simps example_preprocess c q create_file_def unlink_if_exists_def
          transcribe_args_for_def example_world_def)
qed

theorem vad_only_as_model_flags_witness:
  "new_model_calls example_world
     (snd (transcribe_buffer ascii_casing example_processor example_env example_world
             (replicate 1024 0) (cp ''wav'') None))
     = [transcribe_args_for [1, 0, - 1] (cp ''sv'')] \<and>
   vad_filter (transcribe_args_for [1, 0, - 1] (cp ''sv'')) \<and>
   audio (transcribe_args_for [1, 0, - 1] (cp ''sv''))
     = prepared_audio example_processor example_env None [1, 0, - 1] \<and>
   new_model_calls example_world
     (snd (detect_language example_processor example_env example_world
             (replicate 1024 0) (cp ''wav'') None))
     = [detect_transcribe_args [1, 0, - 1]] \<and>
   vad_filter (detect_transcribe_args [1, 0, - 1]) \<and>
   vad_parameters (detect_transcribe_args [1, 0, - 1])
     = [(''min_silence_duration_ms'', 500), (''min_speech_duration_ms'', 250)] \<and>
   audio (detect_transcribe_args [1, 0, - 1])
     = prepared_audio example_processor example_env (Some 10) [1, 0, - 1] \<and>
   (\<exists>r W'. transcribe_buffer ascii_casing example_processor example_env example_world
          (replicate 1024 0) (cp ''wav'') None = (Inr r, W') \<and>
        map_of r ''text'' = Some (PStr (cp ''Hej du.'')))"
proof -
  have t: "new_model_calls example_world
     (snd (transcribe_buffer ascii_casing example_processor example_env example_world
             (replicate 1024 0) (cp ''wav'') None))
     = [transcribe_args_for [1, 0, - 1] (cp ''sv'')]"
    unfolding transcribe_buffer_calls
    by (simp add: example_env_simps example_preprocess)
  have d: "new_model_calls example_world
     (snd (detect_language example_processor example_env example_world
             (replicate 1024 0) (cp ''wav'') None))
     = [detect_transcribe_args [1, 0, - 1]]"
    unfolding detect_language_calls
    by (simp add: example_env_simps example_preprocess)
  have a1: "audio (transcribe_args_for [1, 0, - 1] (cp ''sv''))
     = prepared_audio example_processor example_env None [1, 0, - 1]"
    by (simp add: example_prepared_audio transcribe_args_for_def)
  have a2: "audio (detect_transcribe_args [1, 0, - 1])
     = prepared_audio example_processor example_env (Some 10) [1, 0, - 1]"
    by (simp add: example_prepared_audio detect_transcribe_args_def)
  from example_transcription
  have e: "\<exists>r W'. transcribe_buffer ascii_casing example_processor example_env example_world
          (replicate 1024 0) (cp ''wav'') None = (Inr r, W') \<and>
        map_of r ''text'' = Some (PStr (cp ''Hej du.''))"
    by blast
  note th = vad_only_as_model_flags [of example_world ascii_casing example_processor example_env
      "replicate 1024 0" "cp ''wav''" None None]
  from th have v1: "vad_filter (transcribe_args_for [1, 0, - 1] (cp ''sv''))"
    unfolding t by simp
  from th have v2: "vad_filter (detect_transcribe_args [1, 0, - 1])"
    unfolding d by simp
  from th have v3: "vad_parameters (detect_transcribe_args [1, 0, - 1])
     = [(''min_silence_duration_ms'', 500), (''min_speech_duration_ms'', 250)]"
    unfolding d by simp
  show ?thesis by (intro conjI t v1 a1 d v2 v3 a2 e)
qed

end
